theory Spec2Isabelle
  imports Complex_Main "HOL-Library.Word"
begin

unbundle bit_operations_syntax

section \<open>Number model\<close>

text \<open>
  The program is \<^verbatim>\<open>source/js/lorenz-background.js\<close>. JavaScript numbers are modelled as
  exact reals: rounding of IEEE doubles (and of the \<^verbatim>\<open>Float32Array\<close> holding the
  opacities), NaN and the infinities are outside the model. The value \<^verbatim>\<open>undefined\<close> is
  modelled where the program can produce it (\<open>None\<close> of an option). The 32-bit integer
  operators \<^verbatim>\<open>|\<close>, \<^verbatim>\<open>&\<close> and \<^verbatim>\<open><<\<close> are modelled on \<open>32 word\<close>, and their
  result is read back as a signed number with \<open>sint\<close>.
\<close>

text \<open>Rounding towards zero, the first step of JavaScript's ToInt32.\<close>

definition js_trunc :: "real \<Rightarrow> int" where
  "js_trunc v = (if 0 \<le> v then \<lfloor>v\<rfloor> else \<lceil>v\<rceil>)"

text \<open>ToInt32 of a number: truncate, then wrap modulo \<open>2 ^ 32\<close>.\<close>

definition toInt32 :: "real \<Rightarrow> 32 word" where
  "toInt32 v = word_of_int (js_trunc v)"

text \<open>\<^verbatim>\<open>v | 0\<close>: ToInt32 of \<open>v\<close>, read as a signed number.\<close>

definition or0 :: "real \<Rightarrow> int" where
  "or0 v = sint (toInt32 v OR 0)"

text \<open>\<^verbatim>\<open>v % 1\<close>: the remainder has the sign of the dividend.\<close>

definition rem1 :: "real \<Rightarrow> real" where
  "rem1 v = v - of_int (js_trunc v)"

text \<open>
  \<^verbatim>\<open>Math.random()\<close> is a hidden generator. It is modelled as the sequence of the values
  it is going to return; a function that draws \<open>k\<close> values returns the sequence advanced
  by \<open>k\<close>.
\<close>

type_synonym rng = "nat \<Rightarrow> real"

definition advance :: "nat \<Rightarrow> rng \<Rightarrow> rng" where
  "advance k r = (\<lambda>n. r (n + k))"

text \<open>What \<^verbatim>\<open>Math.random()\<close> promises: every value lies in \<open>[0, 1)\<close>.\<close>

definition unitRange :: "rng \<Rightarrow> bool" where
  "unitRange r = (\<forall>n. 0 \<le> r n \<and> r n < 1)"

section \<open>Data model\<close>

datatype colorType = Grey | Terracotta

text \<open>
  The particle object of \<^verbatim>\<open>createParticle\<close>. The fields \<^verbatim>\<open>x\<close>, \<^verbatim>\<open>y\<close>, \<^verbatim>\<open>z\<close> and
  \<^verbatim>\<open>size\<close> are named \<open>px\<close>, \<open>py\<close>, \<open>pz\<close> and \<open>psize\<close>.
\<close>

record particle =
  px :: real
  py :: real
  pz :: real
  screenX :: real
  screenY :: real
  noiseSeedX :: real
  noiseSeedY :: real
  psize :: real
  brightness :: real
  colorType :: colorType
  side :: nat
  depthScale :: real

text \<open>
  The variables of the enclosing function scope that the simulation reads and writes.
  \<open>lastFrameTime\<close> is \<open>None\<close> after a call of \<^verbatim>\<open>render\<close> without an argument stored
  \<^verbatim>\<open>undefined\<close> in it. The drawing context, the sprites, \<^verbatim>\<open>dpr\<close> and \<^verbatim>\<open>animationId\<close>
  belong to the browser and are not part of the record.
\<close>

record ctx =
  particles :: "particle list"
  opacities :: "real list"
  width :: real
  height :: real
  isVisible :: bool
  time :: real
  lastFrameTime :: "real option"
  centerX :: real
  marginWidth :: real
  fadeZone :: real
  marginInnerEdge :: real
  spatialHash :: "int \<rightharpoonup> nat list"

subsection \<open>CONFIG\<close>

definition sigma :: real where "sigma = 10"
definition rho :: real where "rho = 28"
definition beta :: real where "beta = 8 / 3"
definition dt :: real where "dt = 0.003"
definition particleCount :: nat where "particleCount = 80"
definition particleMinSize :: real where "particleMinSize = 1"
definition particleMaxSize :: real where "particleMaxSize = 3.5"
definition noiseSpeed :: real where "noiseSpeed = 0.0006"
definition connectionDistance :: real where "connectionDistance = 70"
definition connectionDistanceSq :: real where "connectionDistanceSq = 4900"
definition marginPercent :: real where "marginPercent = 0.32"
definition fadeZonePercent :: real where "fadeZonePercent = 0.10"
definition TARGET_FPS :: real where "TARGET_FPS = 30"
definition FRAME_INTERVAL :: real where "FRAME_INTERVAL = 1000 / TARGET_FPS"
definition cellSize :: real where "cellSize = connectionDistance"

section \<open>Noise, canvas geometry and particle creation\<close>

definition smoothNoise :: "real \<Rightarrow> real \<Rightarrow> real \<Rightarrow> real" where
  "smoothNoise a b t =
     sin (a * 1.3 + t) * cos (b * 0.9 + t * 0.7) * 0.5 +
     sin (a * 2.1 - t * 0.5) * sin (b * 1.7 + t * 0.3) * 0.3 +
     cos (a * 0.8 + b * 1.1 + t * 0.9) * 0.2"

text \<open>
  \<^verbatim>\<open>initCanvas\<close>, with \<^verbatim>\<open>window.innerWidth\<close> and \<^verbatim>\<open>window.innerHeight\<close> as arguments;
  the resizing of the canvas element itself is the browser's.
\<close>

definition initCanvas :: "real \<Rightarrow> real \<Rightarrow> ctx \<Rightarrow> ctx" where
  "initCanvas innerWidth innerHeight s =
     (let w = innerWidth;
          h = innerHeight;
          cx = w / 2;
          mw = w * marginPercent;
          fz = w * fadeZonePercent
      in s\<lparr>width := w, height := h, centerX := cx, marginWidth := mw,
            fadeZone := fz, marginInnerEdge := cx - mw\<rparr>)"

text \<open>\<^verbatim>\<open>createParticle\<close> draws eight random values, in the order of the object literal.\<close>

definition createParticle :: "rng \<Rightarrow> nat \<Rightarrow> particle \<times> rng" where
  "createParticle r sd =
     (\<lparr>px = (r 0 - 0.5) * 30,
       py = (r 1 - 0.5) * 30,
       pz = r 2 * 30 + 10,
       screenX = 0,
       screenY = 0,
       noiseSeedX = r 3 * 100,
       noiseSeedY = r 4 * 100,
       psize = particleMinSize + r 5 * (particleMaxSize - particleMinSize),
       brightness = 0.4 + r 6 * 0.6,
       colorType = (if r 7 < 0.9 then Grey else Terracotta),
       side = sd,
       depthScale = 1\<rparr>, advance 8 r)"

text \<open>The two creation loops of \<^verbatim>\<open>initParticles\<close>: \<open>k\<close> particles of one side.\<close>

fun createParticles :: "nat \<Rightarrow> rng \<Rightarrow> nat \<Rightarrow> particle list \<times> rng" where
  "createParticles 0 r sd = ([], r)"
| "createParticles (Suc k) r sd =
     (let (p, r1) = createParticle r sd;
          (ps, r2) = createParticles k r1 sd
      in (p # ps, r2))"

definition initParticles :: "rng \<Rightarrow> ctx \<Rightarrow> ctx \<times> rng" where
  "initParticles r s =
     (let count = particleCount;
          halfCount = count div 2;
          (left, r1) = createParticles halfCount r 0;
          (right, r2) = createParticles (count - halfCount) r1 1
      in (s\<lparr>particles := left @ right, opacities := replicate count 0\<rparr>, r2))"

section \<open>Lorenz integrator\<close>

text \<open>
  The first half of \<^verbatim>\<open>updateLorenz\<close>: the three increments with the constants as the
  function writes them, added to the state.
\<close>

definition lorenzAdvance :: "particle \<Rightarrow> particle" where
  "lorenzAdvance p =
     (let dx = 10 * (py p - px p) * 0.003;
          dy = (px p * (28 - pz p) - py p) * 0.003;
          dz = (px p * py p - 2.6667 * pz p) * 0.003
      in p\<lparr>px := px p + dx, py := py p + dy, pz := pz p + dz\<rparr>)"

text \<open>The condition of the reset, on the advanced state.\<close>

definition outOfBounds :: "particle \<Rightarrow> bool" where
  "outOfBounds p =
     (px p < - 50 \<or> px p > 50 \<or> py p < - 50 \<or> py p > 50 \<or> pz p > 80 \<or> pz p < 0)"

definition updateLorenz :: "rng \<Rightarrow> particle \<Rightarrow> particle \<times> rng" where
  "updateLorenz r p =
     (let q = lorenzAdvance p
      in if outOfBounds q
         then (q\<lparr>px := (r 0 - 0.5) * 20, py := (r 1 - 0.5) * 20, pz := r 2 * 20 + 15\<rparr>,
               advance 3 r)
         else (q, r))"

text \<open>\<open>k\<close> calls of \<^verbatim>\<open>updateLorenz\<close> on one particle, as \<open>k\<close> frames make them.\<close>

fun updateLorenzTimes :: "nat \<Rightarrow> rng \<Rightarrow> particle \<Rightarrow> particle \<times> rng" where
  "updateLorenzTimes 0 r p = (p, r)"
| "updateLorenzTimes (Suc k) r p =
     (let (q, r1) = updateLorenz r p in updateLorenzTimes k r1 q)"

text \<open>
  The step the specification describes: explicit Euler on the canonical Lorenz equations
  with the parameters of \<^verbatim>\<open>CONFIG\<close>.
\<close>

definition eulerLorenz :: "particle \<Rightarrow> particle" where
  "eulerLorenz p =
     p\<lparr>px := px p + sigma * (py p - px p) * dt,
       py := py p + (px p * (rho - pz p) - py p) * dt,
       pz := pz p + (px p * py p - beta * pz p) * dt\<rparr>"

text \<open>The box of the specification: \<open>|x| \<le> 50\<close>, \<open>|y| \<le> 50\<close>, \<open>0 \<le> z \<le> 80\<close>.\<close>

definition inBounds :: "particle \<Rightarrow> bool" where
  "inBounds p =
     (- 50 \<le> px p \<and> px p \<le> 50 \<and> - 50 \<le> py p \<and> py p \<le> 50 \<and> 0 \<le> pz p \<and> pz p \<le> 80)"

section \<open>Screen projector and opacity mask\<close>

text \<open>
  The local values of \<^verbatim>\<open>projectToScreen\<close> that lead to \<^verbatim>\<open>finalX\<close> and \<^verbatim>\<open>finalY\<close>,
  as functions of the simulation time and the particle.
\<close>

definition noiseX :: "real \<Rightarrow> particle \<Rightarrow> real" where
  "noiseX t p = smoothNoise (noiseSeedX p * 0.5) (noiseSeedY p * 0.5) t"

definition noiseY :: "real \<Rightarrow> particle \<Rightarrow> real" where
  "noiseY t p = smoothNoise (noiseSeedY p * 0.5 + 50) (noiseSeedX p * 0.5 + 50) (t * 0.8)"

definition blendedX :: "particle \<Rightarrow> real" where
  "blendedX p =
     (let normX = (px p + 25) * 0.02;
          baseX = rem1 (noiseSeedX p)
      in baseX * 0.7 + normX * 0.3)"

definition blendedY :: "particle \<Rightarrow> real" where
  "blendedY p =
     (let normY = (py p + 25) * 0.02;
          baseY = rem1 (noiseSeedY p)
      in baseY * 0.7 + normY * 0.3)"

definition finalX :: "real \<Rightarrow> particle \<Rightarrow> real" where
  "finalX t p = blendedX p + noiseX t p * 0.15"

definition finalY :: "real \<Rightarrow> particle \<Rightarrow> real" where
  "finalY t p = blendedY p + noiseY t p * 0.2"

definition projectToScreen :: "ctx \<Rightarrow> particle \<Rightarrow> particle" where
  "projectToScreen s p =
     (let normZ = pz p * 0.02;
          fX = finalX (time s) p;
          fY = finalY (time s) p;
          sX = (if side p = 0
                then (let v = fX * marginWidth s * 1.2
                      in if v < - 20 then - 20
                         else if v > marginWidth s + width s * 0.08
                              then marginWidth s + width s * 0.08
                              else v)
                else (let v = width s - marginWidth s - width s * 0.08 + fX * marginWidth s * 1.2
                      in if v > width s + 20 then width s + 20
                         else if v < width s - marginWidth s - width s * 0.08
                              then width s - marginWidth s - width s * 0.08
                              else v));
          padding = height s * 0.02;
          sY = (let v = padding + fY * (height s - padding * 2)
                in if v < - 20 then - 20
                   else if v > height s + 20 then height s + 20
                   else v)
      in p\<lparr>screenX := sX, screenY := sY, depthScale := 0.7 + normZ * 0.3\<rparr>)"

text \<open>The distance from the centre line that \<^verbatim>\<open>calculateOpacity\<close> computes first.\<close>

definition distFromCenter :: "ctx \<Rightarrow> real \<Rightarrow> real" where
  "distFromCenter s sX = (if sX > centerX s then sX - centerX s else centerX s - sX)"

definition calculateOpacity :: "ctx \<Rightarrow> real \<Rightarrow> real" where
  "calculateOpacity s sX =
     (let d = distFromCenter s sX
      in if d < marginInnerEdge s then 0
         else (let posInMargin = d - marginInnerEdge s
               in if posInMargin < fadeZone s then posInMargin / fadeZone s else 1))"

section \<open>Spatial hash\<close>

text \<open>
  \<^verbatim>\<open>(cellX << 16) | (cellY & 0xFFFF)\<close>: both operands go through ToInt32, the result is
  a signed 32-bit number.
\<close>

definition cellKey :: "int \<Rightarrow> int \<Rightarrow> int" where
  "cellKey cellX cellY =
     sint (push_bit 16 (word_of_int cellX :: 32 word) OR (word_of_int cellY AND 0xFFFF))"

definition cellOf :: "real \<Rightarrow> int" where
  "cellOf v = or0 (v / cellSize)"

text \<open>
  The loop of \<^verbatim>\<open>buildSpatialHash\<close> over the particles from index \<open>i\<close> on. The map holds
  the cell arrays; pushing to the array of a key is an update of the map at that key.
\<close>

fun buildLoop :: "particle list \<Rightarrow> nat \<Rightarrow> (int \<rightharpoonup> nat list) \<Rightarrow> (int \<rightharpoonup> nat list)" where
  "buildLoop [] i h = h"
| "buildLoop (p # ps) i h =
     (let cellX = cellOf (screenX p);
          cellY = cellOf (screenY p);
          key = cellKey cellX cellY;
          cell = (case h key of None \<Rightarrow> [] | Some c \<Rightarrow> c)
      in buildLoop ps (Suc i) (h(key \<mapsto> cell @ [i])))"

definition buildSpatialHash :: "ctx \<Rightarrow> ctx" where
  "buildSpatialHash s = s\<lparr>spatialHash := buildLoop (particles s) 0 Map.empty\<rparr>"

text \<open>The nine cells of the query, \<^verbatim>\<open>dx\<close> in the outer loop and \<^verbatim>\<open>dy\<close> in the inner one.\<close>

definition getNearbyParticles :: "ctx \<Rightarrow> particle \<Rightarrow> nat list" where
  "getNearbyParticles s p =
     (let cellX = cellOf (screenX p);
          cellY = cellOf (screenY p)
      in concat (map (\<lambda>dx. concat (map (\<lambda>dy.
           (case spatialHash s (cellKey (cellX + dx) (cellY + dy)) of
              None \<Rightarrow> []
            | Some cell \<Rightarrow> cell)) [- 1, 0, 1])) [- 1, 0, 1]))"

section \<open>Frame\<close>

datatype error = TypeError

text \<open>
  A read of \<^verbatim>\<open>opacities[i]\<close>: \<^verbatim>\<open>undefined\<close> beyond the end of the typed array. A
  comparison with \<^verbatim>\<open>undefined\<close> is false.
\<close>

definition readOpacity :: "ctx \<Rightarrow> nat \<Rightarrow> real option" where
  "readOpacity s i = (if i < length (opacities s) then Some (opacities s ! i) else None)"

definition below :: "real option \<Rightarrow> real \<Rightarrow> bool" where
  "below v c = (case v of None \<Rightarrow> False | Some a \<Rightarrow> a < c)"

text \<open>
  The body of the inner connection loop for particle \<open>i\<close> with opacity \<open>opacity1\<close> and
  one entry \<open>j\<close> of the neighbour buffer. A drawn line is recorded as the pair of
  indices with its alpha. \<^verbatim>\<open>particles[j]\<close> beyond the end is \<^verbatim>\<open>undefined\<close>, and reading
  its \<^verbatim>\<open>side\<close> throws. \<^verbatim>\<open>Math.min\<close> with \<^verbatim>\<open>undefined\<close> is NaN, which is not above 0.01.
\<close>

definition connectPair :: "ctx \<Rightarrow> nat \<Rightarrow> real option \<Rightarrow> nat \<Rightarrow> error + (nat \<times> nat \<times> real) list" where
  "connectPair s i opacity1 j =
     (if j \<le> i then Inr []
      else if length (particles s) \<le> j then Inl TypeError
      else (let p1 = particles s ! i;
                p2 = particles s ! j
            in if side p1 \<noteq> side p2 then Inr []
               else (let opacity2 = readOpacity s j
                     in if below opacity2 0.01 then Inr []
                        else (let dx = screenX p2 - screenX p1;
                                  dy = screenY p2 - screenY p1;
                                  distSq = dx * dx + dy * dy
                              in if distSq < connectionDistanceSq
                                 then (case (opacity1, opacity2) of
                                         (Some o1, Some o2) \<Rightarrow>
                                           (let dist = sqrt distSq;
                                                alpha = (1 - dist / connectionDistance) * 0.25 * min o1 o2
                                            in if alpha > 0.01 then Inr [(i, j, alpha)] else Inr [])
                                       | _ \<Rightarrow> Inr [])
                                 else Inr []))))"

fun connectNearby :: "ctx \<Rightarrow> nat \<Rightarrow> real option \<Rightarrow> nat list \<Rightarrow> error + (nat \<times> nat \<times> real) list" where
  "connectNearby s i opacity1 [] = Inr []"
| "connectNearby s i opacity1 (j # js) =
     (case connectPair s i opacity1 j of
        Inl e \<Rightarrow> Inl e
      | Inr l \<Rightarrow> (case connectNearby s i opacity1 js of
                    Inl e \<Rightarrow> Inl e
                  | Inr ls \<Rightarrow> Inr (l @ ls)))"

text \<open>The outer connection loop over the indices \<open>is\<close>.\<close>

fun connectFrom :: "ctx \<Rightarrow> nat list \<Rightarrow> error + (nat \<times> nat \<times> real) list" where
  "connectFrom s [] = Inr []"
| "connectFrom s (i # is) =
     (let p1 = particles s ! i;
          opacity1 = readOpacity s i
      in case (if below opacity1 0.01 then Inr []
               else connectNearby s i opacity1 (getNearbyParticles s p1)) of
           Inl e \<Rightarrow> Inl e
         | Inr l \<Rightarrow> (case connectFrom s is of
                       Inl e \<Rightarrow> Inl e
                     | Inr ls \<Rightarrow> Inr (l @ ls)))"

definition drawConnections :: "ctx \<Rightarrow> error + (nat \<times> nat \<times> real) list" where
  "drawConnections s = connectFrom s [0 ..< length (particles s)]"

text \<open>
  What reaches the canvas: the background rectangle with its alpha, a stroked segment
  with its alpha, a sprite with its destination rectangle and alpha.
\<close>

datatype drawOp =
    FillRect real real real real real
  | Stroke real real real real real
  | DrawImage colorType real real real real real

definition strokeOf :: "ctx \<Rightarrow> nat \<times> nat \<times> real \<Rightarrow> drawOp" where
  "strokeOf s l =
     (case l of (i, j, alpha) \<Rightarrow>
        Stroke (screenX (particles s ! i)) (screenY (particles s ! i))
               (screenX (particles s ! j)) (screenY (particles s ! j)) alpha)"

definition drawParticle :: "particle \<Rightarrow> real \<Rightarrow> drawOp" where
  "drawParticle p opacity =
     (let sz = psize p * depthScale p * 4;
          finalOpacity = opacity * brightness p
      in DrawImage (colorType p) (screenX p - sz) (screenY p - sz) (sz * 2) (sz * 2) finalOpacity)"

fun drawParticles :: "ctx \<Rightarrow> nat list \<Rightarrow> drawOp list" where
  "drawParticles s [] = []"
| "drawParticles s (i # is) =
     (case readOpacity s i of
        Some a \<Rightarrow> (if a > 0.01 then drawParticle (particles s ! i) a # drawParticles s is
                   else drawParticles s is)
      | None \<Rightarrow> drawParticles s is)"

text \<open>
  The update loop of \<^verbatim>\<open>render\<close> over the particles from index \<open>i\<close> on. A write beyond the
  end of the typed array \<^verbatim>\<open>opacities\<close> is ignored, as \<open>list_update\<close> does.
\<close>

fun updateLoop :: "particle list \<Rightarrow> nat \<Rightarrow> rng \<Rightarrow> ctx \<Rightarrow> ctx \<times> rng" where
  "updateLoop [] i r s = (s, r)"
| "updateLoop (p # ps) i r s =
     (let (p1, r1) = updateLorenz r p;
          p2 = projectToScreen s p1
      in updateLoop ps (Suc i) r1
           (s\<lparr>particles := (particles s)[i := p2],
              opacities := (opacities s)[i := calculateOpacity s (screenX p2)]\<rparr>))"

text \<open>
  \<^verbatim>\<open>currentTime - lastFrameTime < FRAME_INTERVAL\<close>; with \<^verbatim>\<open>undefined\<close> on either side the
  difference is NaN and the comparison is false.
\<close>

definition tooEarly :: "real option \<Rightarrow> real option \<Rightarrow> bool" where
  "tooEarly currentTime lastT =
     (case (currentTime, lastT) of
        (Some c, Some l) \<Rightarrow> c - l < FRAME_INTERVAL
      | _ \<Rightarrow> False)"

text \<open>
  One call of \<^verbatim>\<open>render\<close>: the new state, the generator and what was drawn. The
  rescheduling through \<^verbatim>\<open>requestAnimationFrame\<close> is the browser's.
\<close>

definition render :: "real option \<Rightarrow> rng \<Rightarrow> ctx \<Rightarrow> error + (ctx \<times> rng \<times> drawOp list)" where
  "render currentTime r s =
     (if \<not> isVisible s then Inr (s, r, [])
      else if tooEarly currentTime (lastFrameTime s) then Inr (s, r, [])
      else (let s1 = s\<lparr>lastFrameTime := currentTime\<rparr>;
                s2 = s1\<lparr>time := time s1 + noiseSpeed\<rparr>;
                (s3, r3) = updateLoop (particles s2) 0 r s2;
                s4 = buildSpatialHash s3
            in case drawConnections s4 of
                 Inl e \<Rightarrow> Inl e
               | Inr ls \<Rightarrow>
                   Inr (s4, r3,
                        FillRect 0 0 (width s4) (height s4) 0.03 #
                        map (strokeOf s4) ls @
                        drawParticles s4 [0 ..< length (particles s4)])))"

section \<open>Notions used in the statements\<close>

text \<open>The key under which \<^verbatim>\<open>buildSpatialHash\<close> files a particle.\<close>

definition particleKey :: "particle \<Rightarrow> int" where
  "particleKey p = cellKey (cellOf (screenX p)) (cellOf (screenY p))"

text \<open>The lines one buffer entry contributes when reading it does not throw.\<close>

definition pairLines :: "ctx \<Rightarrow> nat \<Rightarrow> real option \<Rightarrow> nat \<Rightarrow> (nat \<times> nat \<times> real) list" where
  "pairLines s i v j = (case connectPair s i v j of Inl e \<Rightarrow> [] | Inr l \<Rightarrow> l)"

text \<open>Squared screen distance of particles \<open>i\<close> and \<open>j\<close>.\<close>

definition screenDistSq :: "ctx \<Rightarrow> nat \<Rightarrow> nat \<Rightarrow> real" where
  "screenDistSq s i j =
     (screenX (particles s ! j) - screenX (particles s ! i)) *
     (screenX (particles s ! j) - screenX (particles s ! i)) +
     (screenY (particles s ! j) - screenY (particles s ! i)) *
     (screenY (particles s ! j) - screenY (particles s ! i))"

text \<open>The alpha of the specification: \<open>(1 - dist / 70) * 0.25 * min opacity_i opacity_j\<close>.\<close>

definition lineAlpha :: "ctx \<Rightarrow> nat \<Rightarrow> nat \<Rightarrow> real" where
  "lineAlpha s i j =
     (1 - sqrt (screenDistSq s i j) / 70) * 0.25 * min (opacities s ! i) (opacities s ! j)"

text \<open>
  The condition of the specification for a line between \<open>i\<close> and \<open>j\<close>: \<open>j\<close> is in the
  neighbour query of \<open>i\<close>, \<open>j > i\<close>, same side, both opacities above 0.01, squared
  distance below 4900 and alpha above 0.01.
\<close>

definition linked :: "ctx \<Rightarrow> nat \<Rightarrow> nat \<Rightarrow> bool" where
  "linked s i j =
     (j \<in> set (getNearbyParticles s (particles s ! i)) \<and> i < j \<and>
      side (particles s ! i) = side (particles s ! j) \<and>
      opacities s ! i > 0.01 \<and> opacities s ! j > 0.01 \<and>
      screenDistSq s i j < 4900 \<and> lineAlpha s i j > 0.01)"

section \<open>Sample inputs\<close>

text \<open>A particle with the given attractor state, on the left side, at screen position 0.\<close>

definition probe :: "real \<Rightarrow> real \<Rightarrow> real \<Rightarrow> particle" where
  "probe a b c = \<lparr>px = a, py = b, pz = c, screenX = 0, screenY = 0, noiseSeedX = 0,
     noiseSeedY = 0, psize = 1, brightness = 1, colorType = Grey, side = 0, depthScale = 1\<rparr>"

text \<open>
  The variables as the script initialises them, before \<^verbatim>\<open>init\<close> runs: no particles,
  visible, time 0, last frame at 0; the geometry not yet computed is 0.
\<close>

definition startCtx :: ctx where
  "startCtx = \<lparr>particles = [], opacities = [], width = 0, height = 0, isVisible = True,
     time = 0, lastFrameTime = Some 0, centerX = 0, marginWidth = 0, fadeZone = 0,
     marginInnerEdge = 0, spatialHash = Map.empty\<rparr>"

text \<open>A geometry with centre line 500, inner edge 100 and fade zone 20.\<close>

definition maskCtx :: ctx where
  "maskCtx = startCtx\<lparr>centerX := 500, marginInnerEdge := 100, fadeZone := 20\<rparr>"

text \<open>A particle at a given screen position on a given side.\<close>

definition dot :: "real \<Rightarrow> real \<Rightarrow> nat \<Rightarrow> particle" where
  "dot sX sY sd = (probe 0 0 25)\<lparr>screenX := sX, screenY := sY, side := sd\<rparr>"

text \<open>Two left-side particles of opacity 1 at screen distance \<open>d\<close>.\<close>

definition twoCtx :: "real \<Rightarrow> ctx" where
  "twoCtx d = startCtx\<lparr>particles := [dot 100 100 0, dot (100 + d) 100 0], opacities := [1, 1]\<rparr>"

text \<open>Two particles at the lower clamp \<open>(-20, -20)\<close> and at \<open>(30, 10)\<close>.\<close>

definition cornerCtx :: ctx where
  "cornerCtx = startCtx\<lparr>particles := [dot (- 20) (- 20) 0, dot 30 10 0], opacities := [1, 1]\<rparr>"

section \<open>Properties of the Lorenz integrator\<close>



lemma lorenzAdvance_xy:
  "px (lorenzAdvance p) = px (eulerLorenz p) \<and> py (lorenzAdvance p) = py (eulerLorenz p)"
  by (simp add: lorenzAdvance_def eulerLorenz_def sigma_def rho_def dt_def Let_def)

lemma lorenzAdvance_z:
  "pz (lorenzAdvance p) = pz (eulerLorenz p) \<longleftrightarrow> pz p = 0"
  by (simp add: lorenzAdvance_def eulerLorenz_def beta_def dt_def Let_def algebra_simps)

text \<open>
  Claim C1: one call of \<^verbatim>\<open>updateLorenz\<close> first advances the state by the explicit Euler
  step of the Lorenz equations with \<open>sigma = 10\<close>, \<open>rho = 28\<close>, \<open>beta = 8/3\<close> and
  \<open>dt = 0.003\<close>. The increments of \<open>x\<close> and \<open>y\<close> are those of the Euler step
  (\<open>lorenzAdvance_xy\<close>), but the increment of \<open>z\<close> is computed with the inlined
  constant 2.6667 in place of \<^verbatim>\<open>CONFIG.beta\<close>, and agrees with the Euler step only where
  \<open>z = 0\<close> (\<open>lorenzAdvance_z\<close>). At the state \<open>(0, 0, 30)\<close>, which stays within the
  bounds, the function leaves \<open>z = 29.759997\<close> where the Euler step gives \<open>29.76\<close>.
\<close>
theorem updateLorenz_beta_inlined:
  "pz (lorenzAdvance (probe 0 0 30)) = 29.759997 \<and>
   pz (fst (updateLorenz r (probe 0 0 30))) = 29.759997 \<and>
   pz (eulerLorenz (probe 0 0 30)) = 29.76"
  by (simp add: updateLorenz_def lorenzAdvance_def eulerLorenz_def outOfBounds_def probe_def
      beta_def dt_def sigma_def rho_def Let_def)

lemma outOfBounds_iff: "outOfBounds p \<longleftrightarrow> \<not> inBounds p"
  by (auto simp: outOfBounds_def inBounds_def)

lemma unitRange_advance: "unitRange r \<Longrightarrow> unitRange (advance k r)"
  by (simp add: unitRange_def advance_def)

lemma unitRange_at: "unitRange r \<Longrightarrow> 0 \<le> r n \<and> r n < 1"
  by (simp add: unitRange_def)

lemma updateLorenz_reseed:
  assumes "unitRange r" "outOfBounds (lorenzAdvance p)"
  shows "- 10 \<le> px (fst (updateLorenz r p)) \<and> px (fst (updateLorenz r p)) \<le> 10 \<and>
         - 10 \<le> py (fst (updateLorenz r p)) \<and> py (fst (updateLorenz r p)) \<le> 10 \<and>
         15 \<le> pz (fst (updateLorenz r p)) \<and> pz (fst (updateLorenz r p)) \<le> 35"
  using unitRange_at [OF assms(1), of 0] unitRange_at [OF assms(1), of 1]
    unitRange_at [OF assms(1), of 2] assms(2)
  by (simp add: updateLorenz_def Let_def)

lemma updateLorenz_inBounds:
  assumes "unitRange r"
  shows "inBounds (fst (updateLorenz r p))"
proof (cases "outOfBounds (lorenzAdvance p)")
  case True
  from updateLorenz_reseed [OF assms True] show ?thesis
    by (simp add: inBounds_def)
next
  case False
  then show ?thesis
    by (simp add: updateLorenz_def Let_def outOfBounds_iff)
qed

lemma updateLorenz_rng: "unitRange r \<Longrightarrow> unitRange (snd (updateLorenz r p))"
  by (simp add: updateLorenz_def Let_def unitRange_advance)

lemma createParticle_inBounds:
  assumes "unitRange r"
  shows "inBounds (fst (createParticle r sd))"
  using unitRange_at [OF assms, of 0] unitRange_at [OF assms, of 1]
    unitRange_at [OF assms, of 2]
  by (simp add: createParticle_def inBounds_def)

lemma updateLorenzTimes_inBounds:
  "unitRange r \<Longrightarrow> inBounds p \<Longrightarrow> inBounds (fst (updateLorenzTimes k r p))"
proof (induction k arbitrary: r p)
  case 0
  then show ?case by simp
next
  case (Suc k)
  obtain q r1 where u: "updateLorenz r p = (q, r1)" by (cases "updateLorenz r p")
  have "inBounds q" using updateLorenz_inBounds [OF Suc.prems(1), of p] u by simp
  moreover have "unitRange r1" using updateLorenz_rng [OF Suc.prems(1), of p] u by simp
  ultimately show ?case using Suc.IH u by simp
qed

text \<open>
  Claim C5: with \<^verbatim>\<open>Math.random()\<close> in \<open>[0, 1)\<close>, the state returned by
  \<^verbatim>\<open>updateLorenz\<close> satisfies \<open>-50 \<le> x \<le> 50\<close>, \<open>-50 \<le> y \<le> 50\<close> and
  \<open>0 \<le> z \<le> 80\<close>, whatever the state before; when the advanced state leaves these
  bounds, the same call reassigns the three coordinates to the random point with
  \<open>x, y\<close> in \<open>[-10, 10]\<close> and \<open>z\<close> in \<open>[15, 35]\<close>; the state made by
  \<^verbatim>\<open>createParticle\<close> is within the bounds, and so is the state after any number \<open>k\<close>
  of calls starting from it.
\<close>
theorem updateLorenz_keeps_bounds:
  assumes "unitRange r"
  shows "inBounds (fst (updateLorenz r p)) \<and>
         (\<not> inBounds (lorenzAdvance p) \<longrightarrow>
            px (fst (updateLorenz r p)) = (r 0 - 0.5) * 20 \<and>
            py (fst (updateLorenz r p)) = (r 1 - 0.5) * 20 \<and>
            pz (fst (updateLorenz r p)) = r 2 * 20 + 15 \<and>
            - 10 \<le> px (fst (updateLorenz r p)) \<and> px (fst (updateLorenz r p)) \<le> 10 \<and>
            - 10 \<le> py (fst (updateLorenz r p)) \<and> py (fst (updateLorenz r p)) \<le> 10 \<and>
            15 \<le> pz (fst (updateLorenz r p)) \<and> pz (fst (updateLorenz r p)) \<le> 35) \<and>
         inBounds (fst (createParticle r sd)) \<and>
         inBounds (fst (updateLorenzTimes k (snd (createParticle r sd)) (fst (createParticle r sd))))"
proof -
  have a: "inBounds (fst (updateLorenz r p))" by (rule updateLorenz_inBounds [OF assms])
  have b: "inBounds (fst (createParticle r sd))" by (rule createParticle_inBounds [OF assms])
  have "unitRange (snd (createParticle r sd))"
    using assms by (simp add: createParticle_def unitRange_advance)
  then have c: "inBounds (fst (updateLorenzTimes k (snd (createParticle r sd)) (fst (createParticle r sd))))"
    using b by (rule updateLorenzTimes_inBounds)
  have d: "px (fst (updateLorenz r p)) = (r 0 - 0.5) * 20 \<and>
            py (fst (updateLorenz r p)) = (r 1 - 0.5) * 20 \<and>
            pz (fst (updateLorenz r p)) = r 2 * 20 + 15" if "outOfBounds (lorenzAdvance p)"
    using that by (simp add: updateLorenz_def Let_def)
  show ?thesis using a b c d updateLorenz_reseed [OF assms, of p]
    by (simp add: outOfBounds_iff)
qed

text \<open>
  The state \<open>(100, 100, 30)\<close> leaves the bounds and is reseeded; with every random
  value \<open>1/2\<close> the new state is \<open>(0, 0, 25)\<close>.
\<close>
theorem updateLorenz_keeps_bounds_witness:
  "unitRange (\<lambda>n. 1 / 2) \<and> \<not> inBounds (lorenzAdvance (probe 100 100 30)) \<and>
   inBounds (fst (updateLorenz (\<lambda>n. 1 / 2) (probe 100 100 30))) \<and>
   px (fst (updateLorenz (\<lambda>n. 1 / 2) (probe 100 100 30))) = 0 \<and>
   pz (fst (updateLorenz (\<lambda>n. 1 / 2) (probe 100 100 30))) = 25"
proof -
  have h: "unitRange (\<lambda>n. 1 / 2)" by (simp add: unitRange_def)
  have o: "\<not> inBounds (lorenzAdvance (probe 100 100 30))"
    by (simp add: inBounds_def lorenzAdvance_def probe_def Let_def)
  show ?thesis
    using h o updateLorenz_keeps_bounds [OF h, of "probe 100 100 30" 0 0] by simp
qed

section \<open>Properties of the opacity mask\<close>



lemma initCanvas_geometry:
  "width (initCanvas w h s) = w \<and> height (initCanvas w h s) = h \<and>
   centerX (initCanvas w h s) = w / 2 \<and> marginWidth (initCanvas w h s) = w * 0.32 \<and>
   fadeZone (initCanvas w h s) = w * 0.1 \<and> marginInnerEdge (initCanvas w h s) = w * 0.18"
  by (simp add: initCanvas_def Let_def marginPercent_def fadeZonePercent_def)

lemma calculateOpacity_range:
  assumes "0 < fadeZone s"
  shows "0 \<le> calculateOpacity s a \<and> calculateOpacity s a \<le> 1"
  using assms by (simp add: calculateOpacity_def Let_def)

lemma calculateOpacity_zero:
  assumes "0 < fadeZone s" "distFromCenter s a \<le> marginInnerEdge s"
  shows "calculateOpacity s a = 0"
  using assms by (simp add: calculateOpacity_def Let_def)

lemma calculateOpacity_ramp:
  assumes "0 < fadeZone s" "marginInnerEdge s \<le> distFromCenter s a"
    "distFromCenter s a \<le> marginInnerEdge s + fadeZone s"
  shows "calculateOpacity s a = (distFromCenter s a - marginInnerEdge s) / fadeZone s"
  using assms by (simp add: calculateOpacity_def Let_def)

lemma calculateOpacity_one:
  assumes "0 < fadeZone s" "marginInnerEdge s + fadeZone s \<le> distFromCenter s a"
  shows "calculateOpacity s a = 1"
  using assms by (simp add: calculateOpacity_def Let_def)

lemma calculateOpacity_mono:
  assumes "0 < fadeZone s" "distFromCenter s a \<le> distFromCenter s b"
  shows "calculateOpacity s a \<le> calculateOpacity s b"
  using assms by (simp add: calculateOpacity_def Let_def divide_right_mono)

text \<open>
  Claim C4: with a positive fade zone, \<^verbatim>\<open>calculateOpacity\<close> lies in \<open>[0, 1]\<close>, does not
  decrease when the distance from the centre line grows, is 0 for distances up to and
  including the inner edge, is \<open>(distance - inner edge) / fade zone\<close> across the fade
  zone, and is 1 at and beyond inner edge plus fade zone. With inner edge 100 and fade
  zone 20, distance 90 gives 0, distance 110 gives 0.5 and distance 130 gives 1. A
  positive width makes the fade zone and the inner edge computed by \<^verbatim>\<open>initCanvas\<close>
  positive.
\<close>
theorem calculateOpacity_mask:
  assumes "0 < fadeZone s"
  shows "0 \<le> calculateOpacity s a \<and> calculateOpacity s a \<le> 1 \<and>
    (distFromCenter s a \<le> distFromCenter s b \<longrightarrow> calculateOpacity s a \<le> calculateOpacity s b) \<and>
    (distFromCenter s a \<le> marginInnerEdge s \<longrightarrow> calculateOpacity s a = 0) \<and>
    (marginInnerEdge s \<le> distFromCenter s a \<and> distFromCenter s a \<le> marginInnerEdge s + fadeZone s \<longrightarrow>
       calculateOpacity s a = (distFromCenter s a - marginInnerEdge s) / fadeZone s) \<and>
    (marginInnerEdge s + fadeZone s \<le> distFromCenter s a \<longrightarrow> calculateOpacity s a = 1) \<and>
    (marginInnerEdge s = 100 \<and> fadeZone s = 20 \<longrightarrow>
       (distFromCenter s a = 90 \<longrightarrow> calculateOpacity s a = 0) \<and>
       (distFromCenter s a = 110 \<longrightarrow> calculateOpacity s a = 0.5) \<and>
       (distFromCenter s a = 130 \<longrightarrow> calculateOpacity s a = 1)) \<and>
    (0 < w \<longrightarrow> 0 < fadeZone (initCanvas w h s) \<and> 0 < marginInnerEdge (initCanvas w h s))"
proof -
  have ex: "calculateOpacity s a = 0" if "marginInnerEdge s = 100" "distFromCenter s a = 90"
    using that calculateOpacity_zero [OF assms, of a] by simp
  have ex2: "calculateOpacity s a = 0.5"
    if "marginInnerEdge s = 100" "fadeZone s = 20" "distFromCenter s a = 110"
    using that calculateOpacity_ramp [OF assms, of a] by simp
  have ex3: "calculateOpacity s a = 1"
    if "marginInnerEdge s = 100" "fadeZone s = 20" "distFromCenter s a = 130"
    using that calculateOpacity_one [OF assms, of a] by simp
  have g: "0 < fadeZone (initCanvas w h s) \<and> 0 < marginInnerEdge (initCanvas w h s)" if "0 < w"
    using that initCanvas_geometry [of w h s] by simp
  show ?thesis
    using calculateOpacity_range [OF assms, of a] calculateOpacity_mono [OF assms, of a b]
      calculateOpacity_zero [OF assms, of a] calculateOpacity_ramp [OF assms, of a]
      calculateOpacity_one [OF assms, of a] ex ex2 ex3 g
    by blast
qed


text \<open>
  With centre line 500, inner edge 100 and fade zone 20: the positions 410, 390 and 630
  are at distances 90, 110 and 130.
\<close>
theorem calculateOpacity_mask_witness:
  "0 < fadeZone maskCtx \<and> calculateOpacity maskCtx 410 = 0 \<and>
   calculateOpacity maskCtx 390 = 0.5 \<and> calculateOpacity maskCtx 630 = 1 \<and>
   calculateOpacity maskCtx 410 \<le> calculateOpacity maskCtx 390 \<and>
   0 < fadeZone (initCanvas 1000 800 maskCtx)"
proof -
  have h: "0 < fadeZone maskCtx" by (simp add: maskCtx_def startCtx_def)
  have d: "distFromCenter maskCtx 410 = 90" "distFromCenter maskCtx 390 = 110"
    "distFromCenter maskCtx 630 = 130" "marginInnerEdge maskCtx = 100" "fadeZone maskCtx = 20"
    by (simp_all add: maskCtx_def startCtx_def distFromCenter_def)
  show ?thesis
    using h d calculateOpacity_mask [OF h, of 410 390 1000 800]
      calculateOpacity_mask [OF h, of 390 630 1000 800]
      calculateOpacity_mask [OF h, of 630 630 1000 800]
    by simp
qed


section \<open>Properties of the noise and the projector\<close>

lemma smoothNoise_bound: "\<bar>smoothNoise a b t\<bar> \<le> 1"
proof -
  have p: "\<bar>u * v\<bar> \<le> 1" if "\<bar>u\<bar> \<le> 1" "\<bar>v\<bar> \<le> 1" for u v :: real
    using that by (simp add: abs_mult mult_le_one)
  have 1: "\<bar>sin (a * 1.3 + t) * cos (b * 0.9 + t * 0.7)\<bar> \<le> 1"
    by (rule p) simp_all
  have 2: "\<bar>sin (a * 2.1 - t * 0.5) * sin (b * 1.7 + t * 0.3)\<bar> \<le> 1"
    by (rule p) simp_all
  have 3: "\<bar>cos (a * 0.8 + b * 1.1 + t * 0.9)\<bar> \<le> 1" by simp
  show ?thesis
    unfolding smoothNoise_def using 1 2 3 by linarith
qed

text \<open>
  Claim C10: \<^verbatim>\<open>smoothNoise\<close> lies in \<open>[-1, 1]\<close> for all real arguments, so the
  perturbation that \<^verbatim>\<open>projectToScreen\<close> adds to the blended position is at most 0.15 in
  X and 0.2 in Y.
\<close>
theorem smoothNoise_unit:
  "- 1 \<le> smoothNoise a b t \<and> smoothNoise a b t \<le> 1 \<and>
   \<bar>noiseX t p * 0.15\<bar> \<le> 0.15 \<and> \<bar>noiseY t p * 0.2\<bar> \<le> 0.2 \<and>
   \<bar>finalX t p - blendedX p\<bar> \<le> 0.15 \<and> \<bar>finalY t p - blendedY p\<bar> \<le> 0.2"
proof -
  have x: "\<bar>noiseX t p\<bar> \<le> 1" unfolding noiseX_def by (rule smoothNoise_bound)
  have y: "\<bar>noiseY t p\<bar> \<le> 1" unfolding noiseY_def by (rule smoothNoise_bound)
  show ?thesis
    using smoothNoise_bound [of a b t] x y
    by (simp add: finalX_def finalY_def abs_le_iff)
qed

lemma projectToScreen_side: "side (projectToScreen s p) = side p"
  by (simp add: projectToScreen_def Let_def)

lemma clamp_low_first:
  fixes v lo hi :: real
  assumes "lo \<le> hi"
  shows "lo \<le> (if v < lo then lo else if v > hi then hi else v) \<and>
         (if v < lo then lo else if v > hi then hi else v) \<le> hi"
  using assms by auto

lemma clamp_high_first:
  fixes v lo hi :: real
  assumes "lo \<le> hi"
  shows "lo \<le> (if v > hi then hi else if v < lo then lo else v) \<and>
         (if v > hi then hi else if v < lo then lo else v) \<le> hi"
  using assms by auto

lemma projectToScreen_screenX_left:
  "side p = 0 \<Longrightarrow> screenX (projectToScreen s p) =
     (if finalX (time s) p * marginWidth s * 1.2 < - 20 then - 20
      else if finalX (time s) p * marginWidth s * 1.2 > marginWidth s + width s * 0.08
           then marginWidth s + width s * 0.08
           else finalX (time s) p * marginWidth s * 1.2)"
  unfolding projectToScreen_def Let_def by simp

lemma projectToScreen_screenX_right:
  "side p \<noteq> 0 \<Longrightarrow> screenX (projectToScreen s p) =
     (if width s - marginWidth s - width s * 0.08 + finalX (time s) p * marginWidth s * 1.2 > width s + 20
      then width s + 20
      else if width s - marginWidth s - width s * 0.08 + finalX (time s) p * marginWidth s * 1.2
              < width s - marginWidth s - width s * 0.08
           then width s - marginWidth s - width s * 0.08
           else width s - marginWidth s - width s * 0.08 + finalX (time s) p * marginWidth s * 1.2)"
  unfolding projectToScreen_def Let_def by simp

lemma projectToScreen_screenY:
  "screenY (projectToScreen s p) =
     (if height s * 0.02 + finalY (time s) p * (height s - height s * 0.02 * 2) < - 20 then - 20
      else if height s * 0.02 + finalY (time s) p * (height s - height s * 0.02 * 2) > height s + 20
           then height s + 20
           else height s * 0.02 + finalY (time s) p * (height s - height s * 0.02 * 2))"
  unfolding projectToScreen_def Let_def by simp

text \<open>
  Claim C8: on a surface of non-negative width and height, with the margin width that
  \<^verbatim>\<open>initCanvas\<close> computes, the position written by \<^verbatim>\<open>projectToScreen\<close> satisfies
  \<open>-20 \<le> screenX \<le> marginWidth + 0.08 * width\<close> on side 0,
  \<open>width - marginWidth - 0.08 * width \<le> screenX \<le> width + 20\<close> on side 1, and
  \<open>-20 \<le> screenY \<le> height + 20\<close> on both, for every attractor state, noise seed and
  simulation time.
\<close>
theorem projectToScreen_band:
  assumes "0 \<le> width s" "0 \<le> height s" "marginWidth s = width s * marginPercent"
  shows "(side p = 0 \<longrightarrow> - 20 \<le> screenX (projectToScreen s p) \<and>
            screenX (projectToScreen s p) \<le> marginWidth s + 0.08 * width s) \<and>
         (side p = 1 \<longrightarrow> width s - marginWidth s - 0.08 * width s \<le> screenX (projectToScreen s p) \<and>
            screenX (projectToScreen s p) \<le> width s + 20) \<and>
         - 20 \<le> screenY (projectToScreen s p) \<and> screenY (projectToScreen s p) \<le> height s + 20"
proof -
  have b: "- 20 \<le> marginWidth s + width s * 0.08"
    using assms by (simp add: marginPercent_def)
  have l: "- 20 \<le> screenX (projectToScreen s p) \<and>
      screenX (projectToScreen s p) \<le> marginWidth s + width s * 0.08" if "side p = 0"
    unfolding projectToScreen_screenX_left [OF that] by (rule clamp_low_first [OF b])
  have b2: "width s - marginWidth s - width s * 0.08 \<le> width s + 20"
    using b by linarith
  have r: "width s - marginWidth s - width s * 0.08 \<le> screenX (projectToScreen s p) \<and>
      screenX (projectToScreen s p) \<le> width s + 20" if "side p = 1"
  proof -
    from that have "side p \<noteq> 0" by simp
    then show ?thesis
      unfolding projectToScreen_screenX_right [OF \<open>side p \<noteq> 0\<close>] by (intro clamp_high_first [OF b2])
  qed
  have b3: "- 20 \<le> height s + 20" using assms by linarith
  have y: "- 20 \<le> screenY (projectToScreen s p) \<and> screenY (projectToScreen s p) \<le> height s + 20"
    unfolding projectToScreen_screenY by (rule clamp_low_first [OF b3])
  show ?thesis using l r y by (simp add: mult.commute)
qed

text \<open>A 1000 by 800 surface: the left band ends at 400, the right band starts at 600.\<close>
theorem projectToScreen_band_witness:
  "0 \<le> width (initCanvas 1000 800 startCtx) \<and> 0 \<le> height (initCanvas 1000 800 startCtx) \<and>
   marginWidth (initCanvas 1000 800 startCtx) = width (initCanvas 1000 800 startCtx) * marginPercent \<and>
   side (fst (createParticle (\<lambda>n. 1 / 2) 0)) = 0 \<and>
   side (fst (createParticle (\<lambda>n. 1 / 2) 1)) = 1 \<and>
   - 20 \<le> screenX (projectToScreen (initCanvas 1000 800 startCtx) (fst (createParticle (\<lambda>n. 1 / 2) 0))) \<and>
   screenX (projectToScreen (initCanvas 1000 800 startCtx) (fst (createParticle (\<lambda>n. 1 / 2) 0))) \<le> 400 \<and>
   600 \<le> screenX (projectToScreen (initCanvas 1000 800 startCtx) (fst (createParticle (\<lambda>n. 1 / 2) 1))) \<and>
   screenX (projectToScreen (initCanvas 1000 800 startCtx) (fst (createParticle (\<lambda>n. 1 / 2) 1))) \<le> 1020 \<and>
   screenY (projectToScreen (initCanvas 1000 800 startCtx) (fst (createParticle (\<lambda>n. 1 / 2) 1))) \<le> 820"
proof -
  have g: "0 \<le> width (initCanvas 1000 800 startCtx)" "0 \<le> height (initCanvas 1000 800 startCtx)"
    "marginWidth (initCanvas 1000 800 startCtx) = width (initCanvas 1000 800 startCtx) * marginPercent"
    by (simp_all add: initCanvas_def Let_def)
  have v: "width (initCanvas 1000 800 startCtx) = 1000" "height (initCanvas 1000 800 startCtx) = 800"
    "marginWidth (initCanvas 1000 800 startCtx) = 320"
    by (simp_all add: initCanvas_def Let_def marginPercent_def)
  have sd: "side (fst (createParticle (\<lambda>n. 1 / 2) 0)) = 0" "side (fst (createParticle (\<lambda>n. 1 / 2) 1)) = 1"
    by (simp_all add: createParticle_def)
  show ?thesis
    using g sd
      projectToScreen_band [OF g, of "fst (createParticle (\<lambda>n. 1 / 2) 0)"]
      projectToScreen_band [OF g, of "fst (createParticle (\<lambda>n. 1 / 2) 1)"]
    by (simp add: v)
qed

section \<open>Properties of the cell key\<close>


lemma key_low:
  fixes a b :: "32 word"
  shows "take_bit 16 (push_bit 16 a OR (b AND 0xFFFF)) = take_bit 16 b"
proof -
  have m: "(0xFFFF :: 32 word) = mask 16" by (simp add: mask_eq_exp_minus_1)
  show ?thesis
    unfolding m by (rule bit_eqI) (auto simp: bit_simps)
qed

lemma key_high:
  fixes a b :: "32 word"
  shows "drop_bit 16 (push_bit 16 a OR (b AND 0xFFFF)) = take_bit 16 a"
proof -
  have m: "(0xFFFF :: 32 word) = mask 16" by (simp add: mask_eq_exp_minus_1)
  show ?thesis
    unfolding m by (rule bit_eqI) (auto simp: bit_simps dest: bit_imp_le_length)
qed

lemma take_bit_16_word_of_int:
  "uint (take_bit 16 (word_of_int k :: 32 word)) = k mod 65536"
proof -
  have "uint (take_bit 16 (word_of_int k :: 32 word)) = take_bit 16 (take_bit 32 k)"
    by (simp only: unsigned_take_bit_eq uint_word_of_int_eq) simp
  also have "\<dots> = take_bit 16 k" by simp
  also have "\<dots> = k mod 65536" by (simp add: take_bit_eq_mod)
  finally show ?thesis .
qed

lemma cellKey_parts:
  assumes "cellKey a b = cellKey c d"
  shows "a mod 65536 = c mod 65536 \<and> b mod 65536 = d mod 65536"
proof -
  let ?k = "\<lambda>u v. push_bit 16 (word_of_int u :: 32 word) OR (word_of_int v AND 0xFFFF)"
  from assms have e: "?k a b = ?k c d"
    unfolding cellKey_def by (simp only: signed_word_eqI)
  have "take_bit 16 (?k a b) = take_bit 16 (?k c d)" using e by simp
  then have 1: "take_bit 16 (word_of_int b :: 32 word) = take_bit 16 (word_of_int d)"
    unfolding key_low .
  have "drop_bit 16 (?k a b) = drop_bit 16 (?k c d)" using e by simp
  then have 2: "take_bit 16 (word_of_int a :: 32 word) = take_bit 16 (word_of_int c)"
    unfolding key_high .
  from 1 2 show ?thesis
    using take_bit_16_word_of_int [of a] take_bit_16_word_of_int [of b]
      take_bit_16_word_of_int [of c] take_bit_16_word_of_int [of d] by simp
qed

lemma window_mod_inj:
  fixes a c :: int
  assumes "- 1 \<le> a" "a \<le> 65534" "- 1 \<le> c" "c \<le> 65534" "a mod 65536 = c mod 65536"
  shows "a = c"
proof -
  have m: "k mod 65536 = (if k = - 1 then 65535 else k)" if "- 1 \<le> k" "k \<le> 65534" for k :: int
  proof (cases "k = - 1")
    case True
    then show ?thesis by simp
  next
    case False
    with that have "0 \<le> k" "k < 65536" by simp_all
    then show ?thesis using False by simp
  qed
  show ?thesis using assms(5) m [OF assms(1,2)] m [OF assms(3,4)] assms(2,4)
    by (auto split: if_splits)
qed

text \<open>
  Claim C3: the key \<^verbatim>\<open>(cellX << 16) | (cellY & 0xFFFF)\<close> with 32-bit signed semantics is
  injective on cell coordinates in \<open>[-1, 65534]\<close>: two distinct pairs of coordinates in
  that range have different keys.
\<close>
theorem cellKey_injective:
  assumes "- 1 \<le> cellX1" "cellX1 \<le> 65534" "- 1 \<le> cellY1" "cellY1 \<le> 65534"
    and "- 1 \<le> cellX2" "cellX2 \<le> 65534" "- 1 \<le> cellY2" "cellY2 \<le> 65534"
    and "(cellX1, cellY1) \<noteq> (cellX2, cellY2)"
  shows "cellKey cellX1 cellY1 \<noteq> cellKey cellX2 cellY2"
proof
  assume "cellKey cellX1 cellY1 = cellKey cellX2 cellY2"
  then have "cellX1 mod 65536 = cellX2 mod 65536 \<and> cellY1 mod 65536 = cellY2 mod 65536"
    by (rule cellKey_parts)
  then have "cellX1 = cellX2" "cellY1 = cellY2"
    using assms(1-8) by (auto intro: window_mod_inj)
  with assms(9) show False by simp
qed

text \<open>The cells \<open>(-1, 0)\<close> and \<open>(0, -1)\<close> have the keys \<open>-65536\<close> and \<open>65535\<close>.\<close>
theorem cellKey_injective_witness:
  "(- 1, 0) \<noteq> (0, - 1 :: int) \<and> cellKey (- 1) 0 \<noteq> cellKey 0 (- 1) \<and>
   cellKey (- 1) 0 = - 65536 \<and> cellKey 0 (- 1) = 65535"
proof -
  have "cellKey (- 1) 0 \<noteq> cellKey 0 (- 1)"
    by (rule cellKey_injective) simp_all
  moreover have "cellKey (- 1) 0 = - 65536" by code_simp
  moreover have "cellKey 0 (- 1) = 65535" by code_simp
  ultimately show ?thesis by simp
qed

section \<open>Properties of the spatial hash\<close>
lemma buildSpatialHash_fields:
  "particles (buildSpatialHash s) = particles s" "opacities (buildSpatialHash s) = opacities s"
  "time (buildSpatialHash s) = time s" "lastFrameTime (buildSpatialHash s) = lastFrameTime s"
  by (simp_all add: buildSpatialHash_def)

lemma buildLoop_Cons:
  "buildLoop (p # ps) i h =
     buildLoop ps (Suc i)
       (h(particleKey p \<mapsto> (case h (particleKey p) of None \<Rightarrow> [] | Some c \<Rightarrow> c) @ [i]))"
  by (simp add: particleKey_def Let_def)

lemma buildLoop_grows:
  "h k = Some c \<Longrightarrow> \<exists>c'. buildLoop ps i h k = Some c' \<and> set c \<subseteq> set c'"
proof (induction ps arbitrary: i h c)
  case Nil
  then show ?case by simp
next
  case (Cons p ps)
  define h' where "h' = h(particleKey p \<mapsto> (case h (particleKey p) of None \<Rightarrow> [] | Some c \<Rightarrow> c) @ [i])"
  from Cons.prems obtain d where d: "h' k = Some d" "set c \<subseteq> set d"
    unfolding h'_def by (cases "k = particleKey p") auto
  from d(1) have "\<exists>c'. buildLoop ps (Suc i) h' k = Some c' \<and> set d \<subseteq> set c'"
    by (rule Cons.IH)
  with d(2) show ?case
    unfolding buildLoop_Cons h'_def [symmetric] by blast
qed

lemma buildLoop_member:
  "n < length ps \<Longrightarrow> \<exists>c. buildLoop ps i h (particleKey (ps ! n)) = Some c \<and> i + n \<in> set c"
proof (induction ps arbitrary: i h n)
  case Nil
  then show ?case by simp
next
  case (Cons p ps)
  define h' where "h' = h(particleKey p \<mapsto> (case h (particleKey p) of None \<Rightarrow> [] | Some c \<Rightarrow> c) @ [i])"
  show ?case
  proof (cases n)
    case 0
    have "h' (particleKey p) = Some ((case h (particleKey p) of None \<Rightarrow> [] | Some c \<Rightarrow> c) @ [i])"
      unfolding h'_def by simp
    then have "\<exists>c'. buildLoop ps (Suc i) h' (particleKey p) = Some c' \<and>
        set ((case h (particleKey p) of None \<Rightarrow> [] | Some c \<Rightarrow> c) @ [i]) \<subseteq> set c'"
      by (rule buildLoop_grows)
    then show ?thesis
      unfolding buildLoop_Cons h'_def [symmetric] using 0 by auto
  next
    case (Suc m)
    with Cons.prems have "m < length ps" by simp
    then have "\<exists>c. buildLoop ps (Suc i) h' (particleKey (ps ! m)) = Some c \<and> Suc i + m \<in> set c"
      by (rule Cons.IH)
    then show ?thesis
      unfolding buildLoop_Cons h'_def [symmetric] using Suc by simp
  qed
qed

lemma buildLoop_range:
  "buildLoop ps i h k = Some c \<Longrightarrow> n \<in> set c \<Longrightarrow>
     (\<exists>c0. h k = Some c0 \<and> n \<in> set c0) \<or> (i \<le> n \<and> n < i + length ps)"
proof (induction ps arbitrary: i h)
  case Nil
  then show ?case by simp
next
  case (Cons p ps)
  let ?h = "h(particleKey p \<mapsto> (case h (particleKey p) of None \<Rightarrow> [] | Some c \<Rightarrow> c) @ [i])"
  from Cons.prems have b: "buildLoop ps (Suc i) ?h k = Some c"
    unfolding buildLoop_Cons by simp
  from Cons.IH [OF b Cons.prems(2)]
  consider c0 where "?h k = Some c0" "n \<in> set c0" | "Suc i \<le> n" "n < Suc i + length ps"
    by blast
  then show ?case
  proof cases
    case 1
    then show ?thesis
      by (cases "k = particleKey p") (auto split: option.splits)
  next
    case 2
    then show ?thesis by simp
  qed
qed

lemma spatialHash_member:
  assumes "n < length (particles s)"
  shows "\<exists>c. spatialHash (buildSpatialHash s) (particleKey (particles s ! n)) = Some c \<and> n \<in> set c"
  using buildLoop_member [OF assms, of 0 Map.empty] by (simp add: buildSpatialHash_def)

lemma spatialHash_range:
  assumes "spatialHash (buildSpatialHash s) k = Some c" "n \<in> set c"
  shows "n < length (particles s)"
  using buildLoop_range [of "particles s" 0 Map.empty k c n] assms
  by (simp add: buildSpatialHash_def)

lemma getNearbyParticles_iff:
  "j \<in> set (getNearbyParticles s p) \<longleftrightarrow>
     (\<exists>dx \<in> {- 1, 0, 1}. \<exists>dy \<in> {- 1, 0, 1}. \<exists>c.
        spatialHash s (cellKey (cellOf (screenX p) + dx) (cellOf (screenY p) + dy)) = Some c \<and>
        j \<in> set c)"
  by (auto simp: getNearbyParticles_def Let_def split: option.splits)

lemma getNearbyParticles_range:
  assumes "j \<in> set (getNearbyParticles (buildSpatialHash s) p)"
  shows "j < length (particles s)"
  using assms spatialHash_range unfolding getNearbyParticles_iff by blast


lemma js_trunc_adjacent:
  fixes a b :: real
  assumes "\<bar>a - b\<bar> \<le> 1"
  shows "js_trunc b - js_trunc a \<in> {- 1, 0, 1}"
proof -
  have "\<bar>js_trunc b - js_trunc a\<bar> \<le> 1"
    using assms unfolding js_trunc_def by (auto split: if_splits) linarith+
  then show ?thesis by auto
qed

lemma word_of_cellOf: "(word_of_int (cellOf v) :: 32 word) = word_of_int (js_trunc (v / cellSize))"
  by (simp add: cellOf_def or0_def toInt32_def)

lemma cellKey_cong_word:
  assumes "(word_of_int a :: 32 word) = word_of_int a'" "(word_of_int b :: 32 word) = word_of_int b'"
  shows "cellKey a b = cellKey a' b'"
  using assms by (simp add: cellKey_def)

lemma cellKey_neighbour:
  "cellKey (cellOf u + (js_trunc (v / cellSize) - js_trunc (u / cellSize)))
           (cellOf u' + (js_trunc (v' / cellSize) - js_trunc (u' / cellSize))) =
   cellKey (cellOf v) (cellOf v')"
proof (rule cellKey_cong_word)
  show "(word_of_int (cellOf u + (js_trunc (v / cellSize) - js_trunc (u / cellSize))) :: 32 word) =
      word_of_int (cellOf v)"
    by (simp add: word_of_cellOf)
  show "(word_of_int (cellOf u' + (js_trunc (v' / cellSize) - js_trunc (u' / cellSize))) :: 32 word) =
      word_of_int (cellOf v')"
    by (simp add: word_of_cellOf)
qed

lemma cell_step:
  assumes "\<bar>u - v\<bar> \<le> 70"
  shows "js_trunc (v / cellSize) - js_trunc (u / cellSize) \<in> {- 1, 0, 1}"
proof (rule js_trunc_adjacent)
  have "u / 70 - v / 70 = (u - v) / 70" by (simp add: diff_divide_distrib)
  then show "\<bar>u / cellSize - v / cellSize\<bar> \<le> 1"
    using assms by (simp add: cellSize_def connectionDistance_def)
qed

lemma near_in_query:
  assumes "j < length (particles s)"
    and "\<bar>screenX p - screenX (particles s ! j)\<bar> \<le> 70"
    and "\<bar>screenY p - screenY (particles s ! j)\<bar> \<le> 70"
  shows "j \<in> set (getNearbyParticles (buildSpatialHash s) p)"
proof -
  let ?q = "particles s ! j"
  define dx where "dx = js_trunc (screenX ?q / cellSize) - js_trunc (screenX p / cellSize)"
  define dy where "dy = js_trunc (screenY ?q / cellSize) - js_trunc (screenY p / cellSize)"
  have dx: "dx \<in> {- 1, 0, 1}" unfolding dx_def by (rule cell_step [OF assms(2)])
  have dy: "dy \<in> {- 1, 0, 1}" unfolding dy_def by (rule cell_step [OF assms(3)])
  have k: "cellKey (cellOf (screenX p) + dx) (cellOf (screenY p) + dy) = particleKey ?q"
    unfolding dx_def dy_def particleKey_def by (rule cellKey_neighbour)
  from spatialHash_member [OF assms(1)] obtain c where
    c: "spatialHash (buildSpatialHash s) (particleKey ?q) = Some c" "j \<in> set c" by blast
  show ?thesis
    unfolding getNearbyParticles_iff using dx dy c k by metis
qed

lemma screenDistSq_sym: "screenDistSq s i j = screenDistSq s j i"
  by (simp add: screenDistSq_def algebra_simps)

lemma within_distance:
  assumes "screenDistSq s i j \<le> 4900"
  shows "\<bar>screenX (particles s ! i) - screenX (particles s ! j)\<bar> \<le> 70 \<and>
         \<bar>screenY (particles s ! i) - screenY (particles s ! j)\<bar> \<le> 70"
proof -
  have sq: "\<bar>d\<bar> \<le> 70" if "d * d \<le> 4900" for d :: real
  proof -
    have "d\<^sup>2 \<le> 70\<^sup>2" using that by (simp add: power2_eq_square)
    then show ?thesis using abs_le_square_iff [of d 70] by simp
  qed
  let ?dx = "screenX (particles s ! j) - screenX (particles s ! i)"
  let ?dy = "screenY (particles s ! j) - screenY (particles s ! i)"
  have "?dx * ?dx \<le> 4900" "?dy * ?dy \<le> 4900"
    using assms zero_le_square [of ?dx] zero_le_square [of ?dy]
    unfolding screenDistSq_def by linarith+
  then have "\<bar>?dx\<bar> \<le> 70" "\<bar>?dy\<bar> \<le> 70" by (auto intro: sq)
  then show ?thesis by (simp add: abs_minus_commute)
qed

lemma sqrt_le_70: "sqrt v \<le> 70 \<longleftrightarrow> v \<le> 4900"
proof -
  have "sqrt 4900 = 70" using real_sqrt_abs [of 70] by simp
  then show ?thesis using real_sqrt_le_iff [of v 4900] by simp
qed

lemma superset_one:
  assumes "i < length (particles s)" "j < length (particles s)" "screenDistSq s i j \<le> 4900"
  shows "j \<in> set (getNearbyParticles (buildSpatialHash s) (particles s ! i))"
  using near_in_query [OF assms(2), of "particles s ! i"] within_distance [OF assms(3)] by simp

text \<open>
  Claim C2: the cell size equals the connection distance, and for two particles whose
  screen positions are at Euclidean distance at most the connection distance 70, after
  \<^verbatim>\<open>buildSpatialHash\<close> the index of each is in the buffer that \<^verbatim>\<open>getNearbyParticles\<close>
  returns for the other. The positions are arbitrary reals, negative ones included, so
  the truncation of \<^verbatim>\<open>| 0\<close> towards zero and the key of negative cells are covered.
\<close>
theorem neighbour_query_superset:
  assumes "i < length (particles s)" "j < length (particles s)"
    and "sqrt (screenDistSq s i j) \<le> connectionDistance"
  shows "cellSize = connectionDistance \<and>
         j \<in> set (getNearbyParticles (buildSpatialHash s) (particles s ! i)) \<and>
         i \<in> set (getNearbyParticles (buildSpatialHash s) (particles s ! j))"
proof -
  from assms(3) have d: "screenDistSq s i j \<le> 4900"
    by (simp add: connectionDistance_def sqrt_le_70)
  then have d': "screenDistSq s j i \<le> 4900" by (simp add: screenDistSq_sym)
  show ?thesis
    using superset_one [OF assms(1,2) d] superset_one [OF assms(2,1) d']
    by (simp add: cellSize_def)
qed

text \<open>
  The particles at \<open>(-20, -20)\<close> and \<open>(30, 10)\<close>: the first lies in cell \<open>(0, 0)\<close>
  by truncation, and its query reads the cell \<open>(-1, -1)\<close> under the key \<open>-1\<close>.
\<close>
theorem neighbour_query_superset_witness:
  "0 < length (particles cornerCtx) \<and> 1 < length (particles cornerCtx) \<and>
   sqrt (screenDistSq cornerCtx 0 1) \<le> connectionDistance \<and>
   screenX (particles cornerCtx ! 0) = - 20 \<and> cellOf (- 20) = 0 \<and>
   cellKey (0 + - 1) (0 + - 1) = - 1 \<and>
   1 \<in> set (getNearbyParticles (buildSpatialHash cornerCtx) (particles cornerCtx ! 0)) \<and>
   0 \<in> set (getNearbyParticles (buildSpatialHash cornerCtx) (particles cornerCtx ! 1))"
proof -
  have l: "0 < length (particles cornerCtx)" "1 < length (particles cornerCtx)"
    by (simp_all add: cornerCtx_def startCtx_def)
  have "screenDistSq cornerCtx 0 1 = 3400"
    by (simp add: screenDistSq_def cornerCtx_def startCtx_def dot_def probe_def)
  then have d: "sqrt (screenDistSq cornerCtx 0 1) \<le> connectionDistance"
    by (simp add: sqrt_le_70 connectionDistance_def)
  have e: "screenX (particles cornerCtx ! 0) = - 20"
    by (simp add: cornerCtx_def startCtx_def dot_def probe_def)
  have c: "cellOf (- 20) = 0" by code_simp
  have k: "cellKey (0 + - 1) (0 + - 1) = - 1" by code_simp
  show ?thesis
    using l d e c k neighbour_query_superset [OF l d] by simp
qed

section \<open>Properties of the connection pass\<close>

text \<open>What one entry of the neighbour buffer can contribute, and the whole pass.\<close>

lemma connectPair_Inl: "connectPair s i v j = Inl e \<Longrightarrow> length (particles s) \<le> j"
  by (auto simp: connectPair_def Let_def split: if_splits option.splits)

lemma connectPair_Inr:
  "connectPair s i v j = Inr l \<Longrightarrow> (i', j', a) \<in> set l \<Longrightarrow>
     i' = i \<and> j' = j \<and> i < j \<and> j < length (particles s) \<and>
     side (particles s ! i) = side (particles s ! j)"
  by (auto simp: connectPair_def Let_def split: if_splits option.splits)

lemma pairLines_Inr: "j < length (particles s) \<Longrightarrow> connectPair s i v j = Inr (pairLines s i v j)"
  using connectPair_Inl [of s i v j] by (cases "connectPair s i v j") (auto simp: pairLines_def)

lemma pairLines_member:
  "(i', j', a) \<in> set (pairLines s i v j) \<Longrightarrow>
     i' = i \<and> j' = j \<and> i < j \<and> j < length (particles s) \<and>
     side (particles s ! i) = side (particles s ! j)"
  using connectPair_Inr [of s i v j _ i' j' a]
  by (cases "connectPair s i v j") (auto simp: pairLines_def)

lemma connectNearby_total:
  assumes "\<forall>j \<in> set js. j < length (particles s)"
  shows "connectNearby s i v js = Inr (concat (map (pairLines s i v) js))"
  using assms by (induction js) (simp_all add: pairLines_Inr)

lemma connectFrom_total:
  assumes "\<forall>i \<in> set is. \<forall>j \<in> set (getNearbyParticles s (particles s ! i)). j < length (particles s)"
  shows "connectFrom s is = Inr (concat (map (\<lambda>i.
           if below (readOpacity s i) 0.01 then []
           else concat (map (pairLines s i (readOpacity s i))
                  (getNearbyParticles s (particles s ! i)))) is))"
  using assms by (induction "is") (simp_all add: connectNearby_total Let_def)

lemma drawConnections_total:
  "drawConnections (buildSpatialHash s) = Inr (concat (map (\<lambda>i.
           if below (readOpacity (buildSpatialHash s) i) 0.01 then []
           else concat (map (pairLines (buildSpatialHash s) i (readOpacity (buildSpatialHash s) i))
                  (getNearbyParticles (buildSpatialHash s) (particles s ! i))))
         [0 ..< length (particles s)]))"
proof -
  have "\<forall>i \<in> set [0 ..< length (particles (buildSpatialHash s))].
      \<forall>j \<in> set (getNearbyParticles (buildSpatialHash s) (particles (buildSpatialHash s) ! i)).
        j < length (particles (buildSpatialHash s))"
    using getNearbyParticles_range by (simp add: buildSpatialHash_fields)
  from connectFrom_total [OF this] show ?thesis
    unfolding drawConnections_def by (simp add: buildSpatialHash_fields cong: if_cong)
qed

lemma drawConnections_member:
  assumes "drawConnections (buildSpatialHash s) = Inr ls"
  shows "(i, j, a) \<in> set ls \<longleftrightarrow>
     i < length (particles s) \<and> \<not> below (readOpacity (buildSpatialHash s) i) 0.01 \<and>
     j \<in> set (getNearbyParticles (buildSpatialHash s) (particles s ! i)) \<and>
     (i, j, a) \<in> set (pairLines (buildSpatialHash s) i (readOpacity (buildSpatialHash s) i) j)"
    (is "?L \<longleftrightarrow> ?R")
proof -
  let ?b = "buildSpatialHash s"
  from assms have ls: "ls = concat (map (\<lambda>i.
           if below (readOpacity ?b i) 0.01 then []
           else concat (map (pairLines ?b i (readOpacity ?b i))
                  (getNearbyParticles ?b (particles s ! i))))
         [0 ..< length (particles s)])"
    unfolding drawConnections_total by simp
  show ?thesis
  proof
    assume ?L
    then obtain x k where x: "x < length (particles s)" "\<not> below (readOpacity ?b x) 0.01"
      "k \<in> set (getNearbyParticles ?b (particles s ! x))"
      "(i, j, a) \<in> set (pairLines ?b x (readOpacity ?b x) k)"
      unfolding ls by (auto split: if_splits)
    from pairLines_member [OF x(4)] have "i = x" "j = k" by simp_all
    with x show ?R by simp
  next
    assume ?R
    then show ?L unfolding ls by auto
  qed
qed


lemma pairLines_exact:
  assumes "length (opacities s) = length (particles s)" "i < length (particles s)"
    "j < length (particles s)"
  shows "pairLines s i (readOpacity s i) j =
     (if i < j \<and> side (particles s ! i) = side (particles s ! j) \<and>
         \<not> opacities s ! j < 0.01 \<and> screenDistSq s i j < 4900 \<and> lineAlpha s i j > 0.01
      then [(i, j, lineAlpha s i j)] else [])"
  using assms
  unfolding pairLines_def connectPair_def readOpacity_def below_def Let_def
    screenDistSq_def lineAlpha_def connectionDistance_def connectionDistanceSq_def
  by (simp add: not_less)

lemma screenDistSq_nonneg: "0 \<le> screenDistSq s i j"
  unfolding screenDistSq_def by simp

lemma sqrt_less_70: "sqrt v < 70 \<longleftrightarrow> v < 4900"
proof -
  have "sqrt 4900 = 70" using real_sqrt_abs [of 70] by simp
  then show ?thesis using real_sqrt_less_iff [of v 4900] by simp
qed

lemma alpha_needs_opacity:
  assumes "screenDistSq s i j < 4900" "lineAlpha s i j > 0.01"
  shows "opacities s ! i > 0.01 \<and> opacities s ! j > 0.01"
proof -
  define c where "c = 1 - sqrt (screenDistSq s i j) / 70"
  define m where "m = min (opacities s ! i) (opacities s ! j)"
  have "0 \<le> sqrt (screenDistSq s i j)" using screenDistSq_nonneg by simp
  moreover have "sqrt (screenDistSq s i j) < 70" using assms(1) by (simp add: sqrt_less_70)
  ultimately have c: "0 < c" "c \<le> 1" unfolding c_def by simp_all
  from assms(2) have a: "c * m > 0.04" unfolding lineAlpha_def c_def m_def by simp
  have "m > 0.04"
  proof (rule ccontr)
    assume "\<not> m > 0.04"
    then have m: "m \<le> 0.04" by simp
    show False
    proof (cases "m \<le> 0")
      case True
      then have "c * m \<le> 0" using c(1) by (simp add: mult_le_0_iff)
      with a show False by simp
    next
      case False
      then have "c * m \<le> 1 * m" using c(2) by (intro mult_right_mono) simp_all
      with a m show False by simp
    qed
  qed
  then show ?thesis unfolding m_def by simp
qed

lemma drawn_iff_linked:
  assumes "length (opacities s) = length (particles s)"
    and "drawConnections (buildSpatialHash s) = Inr ls"
  shows "(i, j, a) \<in> set ls \<longleftrightarrow>
     i < length (particles s) \<and> linked (buildSpatialHash s) i j \<and> a = lineAlpha (buildSpatialHash s) i j"
proof -
  let ?b = "buildSpatialHash s"
  have len: "length (opacities ?b) = length (particles ?b)"
    using assms(1) by (simp add: buildSpatialHash_fields)
  have ro: "below (readOpacity ?b i) 0.01 \<longleftrightarrow> opacities ?b ! i < 0.01" if "i < length (particles s)"
    using that assms(1) by (simp add: readOpacity_def below_def buildSpatialHash_fields)
  show ?thesis
  proof
    assume "(i, j, a) \<in> set ls"
    then have m: "i < length (particles s)" "\<not> below (readOpacity ?b i) 0.01"
      "j \<in> set (getNearbyParticles ?b (particles s ! i))"
      "(i, j, a) \<in> set (pairLines ?b i (readOpacity ?b i) j)"
      unfolding drawConnections_member [OF assms(2)] by simp_all
    from getNearbyParticles_range [OF m(3)] have j: "j < length (particles s)" .
    from m(4) have p: "i < j" "side (particles ?b ! i) = side (particles ?b ! j)"
      "\<not> opacities ?b ! j < 0.01" "screenDistSq ?b i j < 4900" "lineAlpha ?b i j > 0.01"
      "a = lineAlpha ?b i j"
      using pairLines_exact [OF len, of i j] m(1) j
      by (auto simp: buildSpatialHash_fields split: if_splits)
    from alpha_needs_opacity [OF p(4,5)] m(1,3) p
    show "i < length (particles s) \<and> linked ?b i j \<and> a = lineAlpha ?b i j"
      by (simp add: linked_def buildSpatialHash_fields)
  next
    assume r: "i < length (particles s) \<and> linked ?b i j \<and> a = lineAlpha ?b i j"
    then have l: "j \<in> set (getNearbyParticles ?b (particles s ! i))" "i < j"
      "side (particles ?b ! i) = side (particles ?b ! j)"
      "opacities ?b ! i > 0.01" "opacities ?b ! j > 0.01"
      "screenDistSq ?b i j < 4900" "lineAlpha ?b i j > 0.01"
      by (simp_all add: linked_def buildSpatialHash_fields)
    from getNearbyParticles_range [OF l(1)] have j: "j < length (particles s)" .
    have "(i, j, a) \<in> set (pairLines ?b i (readOpacity ?b i) j)"
      using pairLines_exact [OF len, of i j] r j l by (simp add: buildSpatialHash_fields)
    moreover have "\<not> below (readOpacity ?b i) 0.01" using ro r l(4) by simp
    ultimately show "(i, j, a) \<in> set ls"
      unfolding drawConnections_member [OF assms(2)] using r l(1) by simp
  qed
qed


lemma build_notions:
  "screenDistSq (buildSpatialHash s) i j = screenDistSq s i j"
  "lineAlpha (buildSpatialHash s) i j = lineAlpha s i j"
  by (simp_all add: screenDistSq_def lineAlpha_def buildSpatialHash_fields)

lemma sqrt_eq_10: "sqrt v = 10 \<longleftrightarrow> v = 100"
proof -
  have "sqrt 100 = 10" using real_sqrt_abs [of 10] by simp
  then show ?thesis using real_sqrt_eq_iff [of v 100] by simp
qed

lemma sqrt_eq_80: "sqrt v = 80 \<longleftrightarrow> v = 6400"
proof -
  have "sqrt 6400 = 80" using real_sqrt_abs [of 80] by simp
  then show ?thesis using real_sqrt_eq_iff [of v 6400] by simp
qed

lemma only_pair:
  assumes len: "length (opacities s) = length (particles s)"
    and ls: "drawConnections (buildSpatialHash s) = Inr ls"
    and two: "length (particles s) = 2"
    and l: "l \<in> set ls"
  shows "l = (0, 1, lineAlpha s 0 1) \<and> linked (buildSpatialHash s) 0 1"
proof -
  obtain i j a where ija: "l = (i, j, a)" by (cases l)
  from l have "(i, j, a) \<in> set ls" unfolding ija .
  then have i: "i < length (particles s)" and lk: "linked (buildSpatialHash s) i j"
    and a: "a = lineAlpha s i j"
    unfolding drawn_iff_linked [OF len ls] build_notions by blast+
  from lk have ij: "i < j" and n: "j \<in> set (getNearbyParticles (buildSpatialHash s) (particles s ! i))"
    unfolding linked_def buildSpatialHash_fields by blast+
  from getNearbyParticles_range [OF n] have "j < 2" unfolding two .
  with ij have "i = 0" "j = 1" by simp_all
  with ija a lk show ?thesis by simp
qed

lemma two_particles_near:
  assumes len: "length (opacities s) = length (particles s)"
    and ls: "drawConnections (buildSpatialHash s) = Inr ls"
    and two: "length (particles s) = 2" "side (particles s ! 0) = 0" "side (particles s ! 1) = 0"
      "opacities s = [1, 1]"
    and d: "sqrt (screenDistSq s 0 1) = 10"
  shows "set ls = {(0, 1, 3 / 14)}"
proof -
  let ?b = "buildSpatialHash s"
  from d have sq: "screenDistSq s 0 1 = 100" unfolding sqrt_eq_10 .
  have al: "lineAlpha s 0 1 = 3 / 14"
    unfolding lineAlpha_def d using two(4) by simp
  have le: "screenDistSq s 0 1 \<le> 4900" unfolding sq by simp
  have i01: "0 < length (particles s)" "1 < length (particles s)" unfolding two(1) by simp_all
  have near: "1 \<in> set (getNearbyParticles ?b (particles s ! 0))"
    using i01 le by (rule superset_one)
  have lk: "linked ?b 0 1"
    unfolding linked_def build_notions buildSpatialHash_fields sq al
    using near two by simp
  have a: "(0, 1, 3 / 14) \<in> set ls"
    unfolding drawn_iff_linked [OF len ls] build_notions al
    using lk i01(1) by blast
  have b: "l = (0, 1, 3 / 14)" if "l \<in> set ls" for l
    using only_pair [OF len ls two(1) that] unfolding al by (rule conjunct1)
  from a b show ?thesis by blast
qed

lemma two_particles_far:
  assumes len: "length (opacities s) = length (particles s)"
    and ls: "drawConnections (buildSpatialHash s) = Inr ls"
    and two: "length (particles s) = 2"
    and d: "sqrt (screenDistSq s 0 1) = 80"
  shows "ls = []"
proof (cases ls)
  case Nil
  then show ?thesis .
next
  case (Cons l ls')
  then have "l \<in> set ls" by simp
  from only_pair [OF len ls two this] have "linked (buildSpatialHash s) 0 1" by (rule conjunct2)
  then have "screenDistSq s 0 1 < 4900"
    unfolding linked_def build_notions by blast
  moreover from d have "screenDistSq s 0 1 = 6400" unfolding sqrt_eq_80 .
  ultimately show ?thesis by simp
qed


text \<open>
  Claim C6: with one opacity per particle, the connection pass after
  \<^verbatim>\<open>buildSpatialHash\<close> does not throw, and it draws a line between \<open>i\<close> and \<open>j\<close> with
  alpha \<open>a\<close> exactly when \<open>j\<close> is returned by the neighbour query for \<open>i\<close>, \<open>j > i\<close>,
  both have the same side, both opacities are above 0.01, the squared screen distance is
  below 4900, the alpha \<open>(1 - dist / 70) * 0.25 * min opacity_i opacity_j\<close> is above 0.01,
  and \<open>a\<close> is that alpha. Two left-side particles of opacity 1 at screen distance 10
  give the one line with alpha \<open>3/14\<close>; at distance 80 they give no line.
\<close>
theorem connection_pass_exact:
  assumes "length (opacities s) = length (particles s)"
  shows "\<exists>ls. drawConnections (buildSpatialHash s) = Inr ls \<and>
     (\<forall>i j a. (i, j, a) \<in> set ls \<longleftrightarrow>
        i < length (particles s) \<and> linked (buildSpatialHash s) i j \<and>
        a = lineAlpha (buildSpatialHash s) i j) \<and>
     (length (particles s) = 2 \<and> side (particles s ! 0) = 0 \<and> side (particles s ! 1) = 0 \<and>
      opacities s = [1, 1] \<longrightarrow>
        (sqrt (screenDistSq s 0 1) = 10 \<longrightarrow> set ls = {(0, 1, 3 / 14)}) \<and>
        (sqrt (screenDistSq s 0 1) = 80 \<longrightarrow> ls = []))"
proof -
  obtain ls where ls: "drawConnections (buildSpatialHash s) = Inr ls"
    using drawConnections_total [of s] by simp
  have 1: "\<forall>i j a. (i, j, a) \<in> set ls \<longleftrightarrow>
        i < length (particles s) \<and> linked (buildSpatialHash s) i j \<and>
        a = lineAlpha (buildSpatialHash s) i j"
    by (intro allI) (rule drawn_iff_linked [OF assms ls])
  have 2: "length (particles s) = 2 \<and> side (particles s ! 0) = 0 \<and> side (particles s ! 1) = 0 \<and>
      opacities s = [1, 1] \<longrightarrow>
        (sqrt (screenDistSq s 0 1) = 10 \<longrightarrow> set ls = {(0, 1, 3 / 14)}) \<and>
        (sqrt (screenDistSq s 0 1) = 80 \<longrightarrow> ls = [])"
  proof (intro impI conjI; elim conjE)
    assume "length (particles s) = 2" "side (particles s ! 0) = 0" "side (particles s ! 1) = 0"
      "opacities s = [1, 1]" "sqrt (screenDistSq s 0 1) = 10"
    then show "set ls = {(0, 1, 3 / 14)}" by (rule two_particles_near [OF assms ls])
  next
    assume "length (particles s) = 2" "sqrt (screenDistSq s 0 1) = 80"
    then show "ls = []" by (rule two_particles_far [OF assms ls])
  qed
  show ?thesis
    by (rule exI [of _ ls]) (intro conjI ls 1 2)
qed


lemma twoCtx_facts:
  "length (opacities (twoCtx d)) = length (particles (twoCtx d))"
  "length (particles (twoCtx d)) = 2"
  "side (particles (twoCtx d) ! 0) = 0" "side (particles (twoCtx d) ! 1) = 0"
  "opacities (twoCtx d) = [1, 1]"
  "screenDistSq (twoCtx d) 0 1 = d * d"
  by (simp_all add: twoCtx_def startCtx_def dot_def probe_def screenDistSq_def)

lemma twoCtx_dist:
  "sqrt (screenDistSq (twoCtx 10) 0 1) = 10" "sqrt (screenDistSq (twoCtx 80) 0 1) = 80"
  unfolding twoCtx_facts(6) sqrt_eq_10 sqrt_eq_80 by simp_all


text \<open>The two scenarios on the particles at \<open>(100, 100)\<close> and \<open>(100 + d, 100)\<close>.\<close>
theorem connection_pass_exact_witness:
  "length (opacities (twoCtx 10)) = length (particles (twoCtx 10)) \<and>
   sqrt (screenDistSq (twoCtx 10) 0 1) = 10 \<and>
   (\<exists>ls. drawConnections (buildSpatialHash (twoCtx 10)) = Inr ls \<and> set ls = {(0, 1, 3 / 14)}) \<and>
   linked (buildSpatialHash (twoCtx 10)) 0 1 \<and>
   lineAlpha (buildSpatialHash (twoCtx 10)) 0 1 = 3 / 14 \<and>
   sqrt (screenDistSq (twoCtx 80) 0 1) = 80 \<and>
   drawConnections (buildSpatialHash (twoCtx 80)) = Inr []"
proof -
  have shape: "length (particles (twoCtx d)) = 2 \<and> side (particles (twoCtx d) ! 0) = 0 \<and>
      side (particles (twoCtx d) ! 1) = 0 \<and> opacities (twoCtx d) = [1, 1]" for d
    by (intro conjI twoCtx_facts)
  from connection_pass_exact [OF twoCtx_facts(1), of 10]
  obtain ls where A: "drawConnections (buildSpatialHash (twoCtx 10)) = Inr ls \<and>
     (\<forall>i j a. (i, j, a) \<in> set ls \<longleftrightarrow>
        i < length (particles (twoCtx 10)) \<and> linked (buildSpatialHash (twoCtx 10)) i j \<and>
        a = lineAlpha (buildSpatialHash (twoCtx 10)) i j) \<and>
     (length (particles (twoCtx 10)) = 2 \<and> side (particles (twoCtx 10) ! 0) = 0 \<and>
      side (particles (twoCtx 10) ! 1) = 0 \<and> opacities (twoCtx 10) = [1, 1] \<longrightarrow>
        (sqrt (screenDistSq (twoCtx 10) 0 1) = 10 \<longrightarrow> set ls = {(0, 1, 3 / 14)}) \<and>
        (sqrt (screenDistSq (twoCtx 10) 0 1) = 80 \<longrightarrow> ls = []))" ..
  from A have ls: "drawConnections (buildSpatialHash (twoCtx 10)) = Inr ls" by (rule conjunct1)
  from A have iff: "\<forall>i j a. (i, j, a) \<in> set ls \<longleftrightarrow>
        i < length (particles (twoCtx 10)) \<and> linked (buildSpatialHash (twoCtx 10)) i j \<and>
        a = lineAlpha (buildSpatialHash (twoCtx 10)) i j"
    by (rule conjunct2 [THEN conjunct1])
  from A have "(sqrt (screenDistSq (twoCtx 10) 0 1) = 10 \<longrightarrow> set ls = {(0, 1, 3 / 14)}) \<and>
        (sqrt (screenDistSq (twoCtx 10) 0 1) = 80 \<longrightarrow> ls = [])"
    by (rule conjunct2 [THEN conjunct2, THEN mp, OF _ shape])
  then have near: "set ls = {(0, 1, 3 / 14)}"
    by (rule conjunct1 [THEN mp, OF _ twoCtx_dist(1)])
  then have m: "(0, 1, 3 / 14) \<in> set ls" by (rule equalityD2 [THEN subsetD]) (rule singletonI)
  have k: "0 < length (particles (twoCtx 10)) \<and> linked (buildSpatialHash (twoCtx 10)) 0 1 \<and>
      3 / 14 = lineAlpha (buildSpatialHash (twoCtx 10)) 0 1"
    by (rule iff [rule_format, THEN iffD1, OF m])
  from connection_pass_exact [OF twoCtx_facts(1), of 80]
  obtain ls' where B: "drawConnections (buildSpatialHash (twoCtx 80)) = Inr ls' \<and>
     (\<forall>i j a. (i, j, a) \<in> set ls' \<longleftrightarrow>
        i < length (particles (twoCtx 80)) \<and> linked (buildSpatialHash (twoCtx 80)) i j \<and>
        a = lineAlpha (buildSpatialHash (twoCtx 80)) i j) \<and>
     (length (particles (twoCtx 80)) = 2 \<and> side (particles (twoCtx 80) ! 0) = 0 \<and>
      side (particles (twoCtx 80) ! 1) = 0 \<and> opacities (twoCtx 80) = [1, 1] \<longrightarrow>
        (sqrt (screenDistSq (twoCtx 80) 0 1) = 10 \<longrightarrow> set ls' = {(0, 1, 3 / 14)}) \<and>
        (sqrt (screenDistSq (twoCtx 80) 0 1) = 80 \<longrightarrow> ls' = []))" ..
  from B have "(sqrt (screenDistSq (twoCtx 80) 0 1) = 10 \<longrightarrow> set ls' = {(0, 1, 3 / 14)}) \<and>
        (sqrt (screenDistSq (twoCtx 80) 0 1) = 80 \<longrightarrow> ls' = [])"
    by (rule conjunct2 [THEN conjunct2, THEN mp, OF _ shape])
  then have "ls' = []" by (rule conjunct2 [THEN mp, OF _ twoCtx_dist(2)])
  with B have far: "drawConnections (buildSpatialHash (twoCtx 80)) = Inr []" by simp
  from ls near have ex: "\<exists>ls. drawConnections (buildSpatialHash (twoCtx 10)) = Inr ls \<and>
      set ls = {(0, 1, 3 / 14)}" by (intro exI conjI)
  from k have k1: "linked (buildSpatialHash (twoCtx 10)) 0 1"
    by (rule conjunct2 [THEN conjunct1])
  from k have k2: "lineAlpha (buildSpatialHash (twoCtx 10)) 0 1 = 3 / 14"
    by (rule conjunct2 [THEN conjunct2, THEN sym])
  show ?thesis
    by (intro conjI twoCtx_facts(1) twoCtx_dist ex k1 k2 far)
qed


text \<open>
  Claim C7: for every state of the particles and opacities, the lines of the connection
  pass of a frame never contain a pair \<open>(i, i)\<close>, never contain both \<open>(i, j)\<close> and
  \<open>(j, i)\<close>, and never join particles whose sides differ.
\<close>
theorem connections_one_way:
  "\<exists>ls. drawConnections (buildSpatialHash s) = Inr ls \<and>
     (\<forall>i j a. (i, j, a) \<in> set ls \<longrightarrow>
        i \<noteq> j \<and> (\<forall>b. (j, i, b) \<notin> set ls) \<and> side (particles s ! i) = side (particles s ! j))"
proof -
  obtain ls where ls: "drawConnections (buildSpatialHash s) = Inr ls"
    using drawConnections_total [of s] by simp
  have ord: "i < j \<and> side (particles s ! i) = side (particles s ! j)"
    if "(i, j, a) \<in> set ls" for i j a
  proof -
    from that have "(i, j, a) \<in> set (pairLines (buildSpatialHash s) i (readOpacity (buildSpatialHash s) i) j)"
      unfolding drawConnections_member [OF ls] by simp
    from pairLines_member [OF this] show ?thesis by (simp add: buildSpatialHash_fields)
  qed
  have "i \<noteq> j \<and> (\<forall>b. (j, i, b) \<notin> set ls) \<and> side (particles s ! i) = side (particles s ! j)"
    if m: "(i, j, a) \<in> set ls" for i j a
  proof -
    from ord [OF m] have "i < j" "side (particles s ! i) = side (particles s ! j)" by simp_all
    moreover have "(j, i, b) \<notin> set ls" for b
    proof
      assume "(j, i, b) \<in> set ls"
      from ord [OF this] \<open>i < j\<close> show False by simp
    qed
    ultimately show ?thesis by simp
  qed
  with ls show ?thesis by blast
qed

text \<open>The line \<open>(0, 1)\<close> of the near scenario is drawn, its reverse is not.\<close>
theorem connections_one_way_witness:
  "\<exists>ls. drawConnections (buildSpatialHash (twoCtx 10)) = Inr ls \<and>
     (0, 1, 3 / 14) \<in> set ls \<and> (1, 0, 3 / 14) \<notin> set ls \<and> (0, 0, 3 / 14) \<notin> set ls \<and>
     side (particles (twoCtx 10) ! 0) = side (particles (twoCtx 10) ! 1)"
proof -
  from connections_one_way [of "twoCtx 10"]
  obtain ls where A: "drawConnections (buildSpatialHash (twoCtx 10)) = Inr ls \<and>
     (\<forall>i j a. (i, j, a) \<in> set ls \<longrightarrow>
        i \<noteq> j \<and> (\<forall>b. (j, i, b) \<notin> set ls) \<and>
        side (particles (twoCtx 10) ! i) = side (particles (twoCtx 10) ! j))" ..
  from A have ls: "drawConnections (buildSpatialHash (twoCtx 10)) = Inr ls" by (rule conjunct1)
  note p = A [THEN conjunct2, rule_format]
  from twoCtx_facts(1) ls twoCtx_facts(2-5) twoCtx_dist(1) have "set ls = {(0, 1, 3 / 14)}"
    by (rule two_particles_near)
  then have m: "(0, 1, 3 / 14) \<in> set ls" by (rule equalityD2 [THEN subsetD]) (rule singletonI)
  from p [OF m] have 1: "(1, 0, 3 / 14) \<notin> set ls"
    by (rule conjunct2 [THEN conjunct1, THEN spec])
  from p [OF m] have 2: "side (particles (twoCtx 10) ! 0) = side (particles (twoCtx 10) ! 1)"
    by (rule conjunct2 [THEN conjunct2])
  have 3: "(0, 0, 3 / 14) \<notin> set ls"
  proof
    assume "(0, 0, 3 / 14) \<in> set ls"
    from p [OF this] have "(0::nat) \<noteq> 0" by (rule conjunct1)
    then show False by simp
  qed
  show ?thesis
    by (rule exI [of _ ls]) (intro conjI ls m 1 2 3)
qed

section \<open>Properties of the frame scheduler\<close>


lemma updateLoop_fields:
  "time (fst (updateLoop ps i r s)) = time s \<and>
   lastFrameTime (fst (updateLoop ps i r s)) = lastFrameTime s \<and>
   isVisible (fst (updateLoop ps i r s)) = isVisible s"
proof (induction ps arbitrary: i r s)
  case Nil
  show ?case by simp
next
  case (Cons p ps)
  obtain p1 r1 where u: "updateLorenz r p = (p1, r1)" by (cases "updateLorenz r p")
  show ?case
    unfolding updateLoop.simps u Let_def prod.case
    using Cons.IH by simp
qed

lemma tooEarly_iff:
  "tooEarly currentTime lastT \<longleftrightarrow>
     (\<exists>c l. currentTime = Some c \<and> lastT = Some l \<and> c - l < 1000 / 30)"
  by (cases currentTime; cases lastT)
     (simp_all add: tooEarly_def FRAME_INTERVAL_def TARGET_FPS_def)

lemma render_skip:
  assumes "\<not> isVisible s \<or> tooEarly currentTime (lastFrameTime s)"
  shows "render currentTime r s = Inr (s, r, [])"
  using assms unfolding render_def by auto

lemma render_active:
  assumes "isVisible s" "\<not> tooEarly currentTime (lastFrameTime s)"
  shows "\<exists>s' r' ops. render currentTime r s = Inr (s', r', ops) \<and>
     time s' = time s + noiseSpeed \<and> lastFrameTime s' = currentTime"
proof -
  define s2 where "s2 = (s\<lparr>lastFrameTime := currentTime\<rparr>)\<lparr>time := time s + noiseSpeed\<rparr>"
  obtain s3 r3 where u: "updateLoop (particles s2) 0 r s2 = (s3, r3)"
    by (cases "updateLoop (particles s2) 0 r s2")
  from updateLoop_fields [of "particles s2" 0 r s2] u
  have f: "time s3 = time s + noiseSpeed" "lastFrameTime s3 = currentTime"
    by (simp_all add: s2_def)
  obtain ls where ls: "drawConnections (buildSpatialHash s3) = Inr ls"
    using drawConnections_total [of s3] by simp
  have "render currentTime r s =
      Inr (buildSpatialHash s3, r3,
           FillRect 0 0 (width (buildSpatialHash s3)) (height (buildSpatialHash s3)) 0.03 #
           map (strokeOf (buildSpatialHash s3)) ls @
           drawParticles (buildSpatialHash s3) [0 ..< length (particles (buildSpatialHash s3))])"
    using assms u ls unfolding render_def Let_def s2_def by simp
  with f show ?thesis by (simp add: buildSpatialHash_fields)
qed

text \<open>
  Claim C9: a call of \<^verbatim>\<open>render\<close> while the surface is hidden, or with
  \<open>currentTime - lastFrameTime\<close> below the frame interval \<open>1000 / 30\<close>, returns the
  state as it was (particles, opacities, time, spatial hash and \<open>lastFrameTime\<close>), draws
  nothing and consumes no random value. Every other call completes, adds exactly
  \<open>0.0006\<close> to the simulation time, whatever the time stamp, and stores the time stamp
  in \<open>lastFrameTime\<close>.
\<close>
theorem render_gate:
  "(\<not> isVisible s \<or>
      (\<exists>c l. currentTime = Some c \<and> lastFrameTime s = Some l \<and> c - l < 1000 / 30) \<longrightarrow>
        render currentTime r s = Inr (s, r, [])) \<and>
   (isVisible s \<and>
      \<not> (\<exists>c l. currentTime = Some c \<and> lastFrameTime s = Some l \<and> c - l < 1000 / 30) \<longrightarrow>
        (\<exists>s' r' ops. render currentTime r s = Inr (s', r', ops) \<and>
           time s' = time s + 0.0006 \<and> lastFrameTime s' = currentTime))"
  unfolding tooEarly_iff [symmetric]
  using render_skip [of s currentTime r] render_active [of s currentTime r]
  by (simp add: noiseSpeed_def)

text \<open>
  From the state with last frame at 0: hidden at time stamp 40, too early at 10, active
  at 40 and at 4000 with the same increment, and active on the first call of
  \<^verbatim>\<open>render\<close>, which \<^verbatim>\<open>init\<close> makes without a time stamp.
\<close>
theorem render_gate_witness:
  "render (Some 40) (\<lambda>n. 1 / 2) ((twoCtx 10)\<lparr>isVisible := False\<rparr>) =
     Inr ((twoCtx 10)\<lparr>isVisible := False\<rparr>, \<lambda>n. 1 / 2, []) \<and>
   render (Some 10) (\<lambda>n. 1 / 2) (twoCtx 10) = Inr (twoCtx 10, \<lambda>n. 1 / 2, []) \<and>
   (\<exists>s' r' ops. render (Some 40) (\<lambda>n. 1 / 2) (twoCtx 10) = Inr (s', r', ops) \<and>
      time s' = 0.0006 \<and> lastFrameTime s' = Some 40) \<and>
   (\<exists>s' r' ops. render (Some 4000) (\<lambda>n. 1 / 2) (twoCtx 10) = Inr (s', r', ops) \<and>
      time s' = 0.0006 \<and> lastFrameTime s' = Some 4000) \<and>
   (\<exists>s' r' ops. render None (\<lambda>n. 1 / 2) (twoCtx 10) = Inr (s', r', ops) \<and>
      time s' = 0.0006 \<and> lastFrameTime s' = None)"
proof -
  have v: "isVisible (twoCtx 10)" "lastFrameTime (twoCtx 10) = Some 0" "time (twoCtx 10) = 0"
    by (simp_all add: twoCtx_def startCtx_def)
  have 1: "render (Some 40) (\<lambda>n. 1 / 2) ((twoCtx 10)\<lparr>isVisible := False\<rparr>) =
     Inr ((twoCtx 10)\<lparr>isVisible := False\<rparr>, \<lambda>n. 1 / 2, [])"
    using render_gate [of "(twoCtx 10)\<lparr>isVisible := False\<rparr>" "Some 40" "\<lambda>n. 1 / 2"] by simp
  have 2: "render (Some 10) (\<lambda>n. 1 / 2) (twoCtx 10) = Inr (twoCtx 10, \<lambda>n. 1 / 2, [])"
    using render_gate [of "twoCtx 10" "Some 10" "\<lambda>n. 1 / 2"] by (simp add: v)
  have 3: "\<exists>s' r' ops. render (Some 40) (\<lambda>n. 1 / 2) (twoCtx 10) = Inr (s', r', ops) \<and>
      time s' = 0.0006 \<and> lastFrameTime s' = Some 40"
    using render_gate [of "twoCtx 10" "Some 40" "\<lambda>n. 1 / 2"] by (simp add: v)
  have 4: "\<exists>s' r' ops. render (Some 4000) (\<lambda>n. 1 / 2) (twoCtx 10) = Inr (s', r', ops) \<and>
      time s' = 0.0006 \<and> lastFrameTime s' = Some 4000"
    using render_gate [of "twoCtx 10" "Some 4000" "\<lambda>n. 1 / 2"] by (simp add: v)
  have 5: "\<exists>s' r' ops. render None (\<lambda>n. 1 / 2) (twoCtx 10) = Inr (s', r', ops) \<and>
      time s' = 0.0006 \<and> lastFrameTime s' = None"
    using render_gate [of "twoCtx 10" None "\<lambda>n. 1 / 2"] by (simp add: v)
  from 1 2 3 4 5 show ?thesis by (intro conjI)
qed

text \<open>
  The particle and opacity arrays have the same length in every state the program
  reaches: \<^verbatim>\<open>initParticles\<close> allocates 80 of each, and \<^verbatim>\<open>render\<close> keeps both lengths.
\<close>


lemma createParticles_length: "length (fst (createParticles k r sd)) = k"
proof (induction k arbitrary: r)
  case 0
  show ?case by simp
next
  case (Suc k)
  obtain p r1 where c: "createParticle r sd = (p, r1)" by (cases "createParticle r sd")
  obtain ps r2 where d: "createParticles k r1 sd = (ps, r2)" by (cases "createParticles k r1 sd")
  from Suc.IH [of r1] d have "length ps = k" by simp
  then show ?case by (simp add: c d)
qed

lemma initParticles_lengths:
  "length (particles (fst (initParticles r s))) = 80 \<and>
   length (opacities (fst (initParticles r s))) = 80"
proof -
  obtain left r1 where l: "createParticles 40 r 0 = (left, r1)" by (cases "createParticles 40 r 0")
  obtain right r2 where rr: "createParticles 40 r1 (Suc 0) = (right, r2)"
    by (cases "createParticles 40 r1 (Suc 0)")
  from createParticles_length [of 40 r 0] l have "length left = 40" by simp
  moreover from createParticles_length [of 40 r1 "Suc 0"] rr have "length right = 40" by simp
  ultimately show ?thesis
    by (simp add: initParticles_def particleCount_def Let_def l rr)
qed

lemma updateLoop_lengths:
  "length (particles (fst (updateLoop ps i r s))) = length (particles s) \<and>
   length (opacities (fst (updateLoop ps i r s))) = length (opacities s)"
proof (induction ps arbitrary: i r s)
  case Nil
  show ?case by simp
next
  case (Cons p ps)
  obtain p1 r1 where u: "updateLorenz r p = (p1, r1)" by (cases "updateLorenz r p")
  show ?case
    unfolding updateLoop.simps u Let_def prod.case
    using Cons.IH by simp
qed

lemma render_lengths:
  assumes "render currentTime r s = Inr (s', r', ops)"
  shows "length (particles s') = length (particles s) \<and>
         length (opacities s') = length (opacities s)"
proof (cases "\<not> isVisible s \<or> tooEarly currentTime (lastFrameTime s)")
  case True
  then have "render currentTime r s = Inr (s, r, [])" by (rule render_skip)
  with assms show ?thesis by simp
next
  case False
  define s2 where "s2 = (s\<lparr>lastFrameTime := currentTime\<rparr>)\<lparr>time := time s + noiseSpeed\<rparr>"
  obtain s3 r3 where u: "updateLoop (particles s2) 0 r s2 = (s3, r3)"
    by (cases "updateLoop (particles s2) 0 r s2")
  from updateLoop_lengths [of "particles s2" 0 r s2] u
  have f: "length (particles s3) = length (particles s)" "length (opacities s3) = length (opacities s)"
    by (simp_all add: s2_def)
  obtain ls where ls: "drawConnections (buildSpatialHash s3) = Inr ls"
    using drawConnections_total [of s3] by simp
  have "s' = buildSpatialHash s3"
    using assms False u ls unfolding render_def Let_def s2_def by simp
  with f show ?thesis by (simp add: buildSpatialHash_fields)
qed

end
